theory Spec2Isabelle
  imports Main "HOL-Library.Multiset"
begin

section \<open>Data model (src/db/schema.ts)\<close>

text \<open>
  Timestamps are milliseconds since the epoch. A nullable column is an \<open>option\<close>; the
  two tables are lists of rows in insertion order, and each \<open>serial\<close> primary key has
  the sequence that produces its next value. A string is the list of its code units,
  taken below 256, and holds no NUL character.
\<close>

type_synonym timestamp = int

record user =
  user_id :: int
  user_email :: string
  user_password :: string
  user_firstName :: string
  user_lastName :: string
  user_isActive :: "bool option"
  user_createdAt :: "timestamp option"
  user_updatedAt :: "timestamp option"

record post =
  post_id :: int
  post_title :: string
  post_content :: "string option"
  post_authorId :: int
  post_isPublished :: "bool option"
  post_createdAt :: "timestamp option"
  post_updatedAt :: "timestamp option"

record db =
  users :: "user list"
  posts :: "post list"
  users_id_seq :: int
  posts_id_seq :: int

section \<open>JSON values, requests and responses\<close>

text \<open>
  \<open>JDate\<close> is a \<open>Date\<close> value, which \<open>res.json\<close> serialises as its ISO string.
  A property whose value is \<open>undefined\<close> is left out of the serialised object:
  \<open>opt_field\<close>.
\<close>

datatype json =
    JNull
  | JBool bool
  | JNum int
  | JStr string
  | JDate timestamp
  | JArr "json list"
  | JObj "(string \<times> json) list"

definition opt_field :: "string \<Rightarrow> json option \<Rightarrow> (string \<times> json) list" where
  "opt_field k v = (case v of None \<Rightarrow> [] | Some j \<Rightarrow> [(k, j)])"

definition nullable :: "('a \<Rightarrow> json) \<Rightarrow> 'a option \<Rightarrow> json" where
  "nullable f v = (case v of None \<Rightarrow> JNull | Some x \<Rightarrow> f x)"

definition keys :: "json \<Rightarrow> string list" where
  "keys j = (case j of JObj kvs \<Rightarrow> map fst kvs | _ \<Rightarrow> [])"

definition field :: "string \<Rightarrow> json \<Rightarrow> json option" where
  "field k j = (case j of JObj kvs \<Rightarrow> map_of kvs k | _ \<Rightarrow> None)"

datatype http_method = GET | POST | PUT | DELETE

text \<open>\<open>AuthRequest.user\<close> (src/middleware/auth.ts).\<close>

record auth_user =
  au_id :: int
  au_email :: string
  au_firstName :: string
  au_lastName :: string

text \<open>
  An Express request, as the routers see it: the method (one of the four the routers
  register); the path as the list of its non-empty segments, percent-decoded (a trailing
  slash adds no segment); the query string as string-valued parameters; the body of type
  \<open>'b\<close> (parsed JSON before validation, the schema's type after it); and the \<open>user\<close>
  that \<open>authenticateToken\<close> attaches. Express sets \<open>req.params\<close> when a route
  matches.
\<close>

record 'b request =
  req_method :: http_method
  req_path :: "string list"
  req_originalUrl :: string
  req_authorization :: "string option"
  req_params :: "(string \<times> string) list"
  req_query :: "(string \<times> string) list"
  req_body :: 'b
  req_user :: "auth_user option"

record response =
  res_status :: int
  res_body :: json

text \<open>\<open>res.json(b)\<close> answers with the default status 200.\<close>

definition res_json :: "json \<Rightarrow> response" where
  "res_json b = \<lparr>res_status = 200, res_body = b\<rparr>"

definition res_status_json :: "int \<Rightarrow> json \<Rightarrow> response" where
  "res_status_json s b = \<lparr>res_status = s, res_body = b\<rparr>"

section \<open>Configuration and the libraries the code calls\<close>

text \<open>\<open>CONFIG\<close> of src/config/index.ts.\<close>

record CONFIG =
  PORT :: int
  NODE_ENV :: string
  DATABASE_URL :: string
  JWT_SECRET :: string
  JWT_EXPIRES_IN :: string
  CORS_ORIGIN :: string

text \<open>
  The places of the source where an \<open>Error\<close> object is constructed. The JavaScript
  runtime records the call stack in \<open>err.stack\<close> at construction, so the stack is a
  function of the place.
\<close>

datatype throw_site =
    Register_existing
  | Login_no_user
  | Login_bad_password
  | GetPost_not_found
  | UpdatePost_not_found
  | UpdatePost_not_owner
  | DeletePost_not_found
  | DeletePost_not_owner
  | Route_not_found

text \<open>
  Third-party functions are parameters of the model: bcryptjs (\<open>hash\<close>,
  \<open>compare\<close>), jsonwebtoken (\<open>sign\<close> of the payload \<open>{userId}\<close>; \<open>verify\<close>, which
  gives the payload's \<open>userId\<close> or throws, here \<open>None\<close>), zod's e-mail format
  check, and the runtime's stack capture.
\<close>

record runtime =
  bcrypt_hash :: "string \<Rightarrow> nat \<Rightarrow> string"
  bcrypt_compare :: "string \<Rightarrow> string \<Rightarrow> bool"
  jwt_sign :: "int \<Rightarrow> string \<Rightarrow> string \<Rightarrow> string"
  jwt_verify :: "string \<Rightarrow> string \<Rightarrow> int option"
  zod_email :: "string \<Rightarrow> bool"
  capture_stack :: "throw_site \<Rightarrow> string option"

section \<open>JavaScript built-ins used by the code\<close>

subsection \<open>Characters\<close>

definition is_digit :: "char \<Rightarrow> bool" where
  "is_digit c = (c \<in> set ''0123456789'')"

text \<open>The white space and line terminators that \<open>parseInt\<close> skips.\<close>

definition is_space :: "char \<Rightarrow> bool" where
  "is_space c = ((of_char c :: nat) \<in> {9, 10, 11, 12, 13, 32, 160})"

definition digit_val :: "char \<Rightarrow> int" where
  "digit_val c = int (of_char c) - 48"

definition digits_val :: "string \<Rightarrow> int" where
  "digits_val ds = foldl (\<lambda>a c. a * 10 + digit_val c) 0 ds"

definition is_hex :: "char \<Rightarrow> bool" where
  "is_hex c = (c \<in> set ''0123456789abcdefABCDEF'')"

definition hex_val :: "char \<Rightarrow> int" where
  "hex_val c = (if is_digit c then digit_val c
                else if c \<in> set ''abcdef'' then int (of_char c) - 87
                else int (of_char c) - 55)"

definition hexs_val :: "string \<Rightarrow> int" where
  "hexs_val ds = foldl (\<lambda>a c. a * 16 + hex_val c) 0 ds"

subsection \<open>Numbers\<close>

text \<open>
  A JavaScript number is a double. The code computes with integers only, so a number is
  an integer that a double holds exactly, an infinity, or \<open>NaN\<close>. \<open>to_number\<close> gives
  the double nearest to an integer: an integer of more than 53 significant bits is
  rounded to 53 bits, a tie to the even neighbour, and an integer beyond the largest
  double becomes an infinity. The sign of zero is not kept: the code treats both zeros
  alike.
\<close>

datatype number = Num int | Infinity | NegInfinity | NaN

function bit_length :: "int \<Rightarrow> nat" where
  "bit_length n = (if n \<le> 0 then 0 else Suc (bit_length (n div 2)))"
  by pat_completeness auto
termination
  by (relation "measure nat") auto

declare bit_length.simps [simp del]

definition round53 :: "int \<Rightarrow> int" where
  "round53 n =
     (let e = bit_length n - 53 in
      if e = 0 then n
      else
        (let q = n div 2 ^ e; r = n mod 2 ^ e; half = 2 ^ (e - 1)
         in if half < r \<or> (r = half \<and> odd q) then (q + 1) * 2 ^ e else q * 2 ^ e))"

definition to_number :: "int \<Rightarrow> number" where
  "to_number i =
     (let m = round53 \<bar>i\<bar> in
      if 2 ^ 1024 \<le> m then (if i < 0 then NegInfinity else Infinity)
      else Num (if i < 0 then - m else m))"

text \<open>\<open>Number.MAX_SAFE_INTEGER\<close>, \<open>2^53 - 1\<close>.\<close>

definition MAX_SAFE_INTEGER :: int where
  "MAX_SAFE_INTEGER = 9007199254740991"

text \<open>\<open>a - 1\<close> and \<open>a * b\<close>: the exact result, rounded to a double.\<close>

definition minus_one :: "number \<Rightarrow> number" where
  "minus_one a = (case a of Num x \<Rightarrow> to_number (x - 1) | _ \<Rightarrow> a)"

definition sign_of :: "number \<Rightarrow> int" where
  "sign_of a =
     (case a of
        Num x \<Rightarrow> (if x < 0 then - 1 else if x = 0 then 0 else 1)
      | Infinity \<Rightarrow> 1
      | NegInfinity \<Rightarrow> - 1
      | NaN \<Rightarrow> 0)"

definition times :: "number \<Rightarrow> number \<Rightarrow> number" where
  "times a b =
     (case (a, b) of
        (NaN, _) \<Rightarrow> NaN
      | (_, NaN) \<Rightarrow> NaN
      | (Num x, Num y) \<Rightarrow> to_number (x * y)
      | _ \<Rightarrow>
          (if sign_of a * sign_of b = 0 then NaN
           else if 0 < sign_of a * sign_of b then Infinity
           else NegInfinity))"

text \<open>\<open>JSON.stringify\<close> writes an infinity and \<open>NaN\<close> as \<open>null\<close>.\<close>

definition number_json :: "number \<Rightarrow> json" where
  "number_json a = (case a of Num x \<Rightarrow> JNum x | _ \<Rightarrow> JNull)"

subsection \<open>parseInt\<close>

text \<open>
  \<open>parseInt(s)\<close> without a radix: leading white space is skipped, a sign is read, a
  \<open>0x\<close> prefix selects base 16, and the longest prefix of digits is the value, as a
  double; with no digit the result is \<open>NaN\<close>. \<open>parseInt(undefined)\<close> is \<open>NaN\<close>.
\<close>

definition parse_unsigned :: "string \<Rightarrow> int option" where
  "parse_unsigned s =
     (if take 2 s = ''0x'' \<or> take 2 s = ''0X'' then
        (let ds = takeWhile is_hex (drop 2 s) in if ds = [] then None else Some (hexs_val ds))
      else
        (let ds = takeWhile is_digit s in if ds = [] then None else Some (digits_val ds)))"

definition parseInt_str :: "string \<Rightarrow> int option" where
  "parseInt_str s =
     (let t = dropWhile is_space s in
      case t of
        [] \<Rightarrow> None
      | c # r \<Rightarrow>
          if c = CHR ''-'' then map_option uminus (parse_unsigned r)
          else if c = CHR ''+'' then parse_unsigned r
          else parse_unsigned t)"

definition parseInt :: "string option \<Rightarrow> number" where
  "parseInt v =
     (case v of
        None \<Rightarrow> NaN
      | Some s \<Rightarrow> (case parseInt_str s of None \<Rightarrow> NaN | Some i \<Rightarrow> to_number i))"

text \<open>\<open>n || d\<close> on a number: \<open>NaN\<close> and \<open>0\<close> are falsy.\<close>

definition or_default :: "number \<Rightarrow> int \<Rightarrow> number" where
  "or_default n d = (if n = NaN \<or> n = Num 0 then Num d else n)"

subsection \<open>Strings\<close>

text \<open>\<open>s.split(c)\<close> for a one-character separator.\<close>

fun split_on :: "char \<Rightarrow> string \<Rightarrow> string list" where
  "split_on c [] = [[]]"
| "split_on c (x # xs) =
     (if x = c then [] # split_on c xs
      else (case split_on c xs of
              [] \<Rightarrow> [[x]]
            | w # ws \<Rightarrow> (x # w) # ws))"

text \<open>The regular expression \<open>/^\<bslash>d+$/\<close> of the schemas.\<close>

definition all_digits :: "string \<Rightarrow> bool" where
  "all_digits s = (s \<noteq> [] \<and> list_all is_digit s)"

text \<open>
  Express compares the fixed segments of a route without regard to the case of the
  letters \<open>A\<close> to \<open>Z\<close>.
\<close>

definition lower :: "char \<Rightarrow> char" where
  "lower c =
     (if c \<in> set ''ABCDEFGHIJKLMNOPQRSTUVWXYZ'' then char_of (of_char c + (32 :: nat)) else c)"

definition lowercase :: "string \<Rightarrow> string" where
  "lowercase s = map lower s"

section \<open>Validation schemas (src/utils/schemas.ts)\<close>

record RegisterData =
  rd_email :: string
  rd_password :: string
  rd_firstName :: string
  rd_lastName :: string

record LoginData =
  ld_email :: string
  ld_password :: string

record CreatePostData =
  cp_title :: string
  cp_content :: "string option"
  cp_isPublished :: "bool option"

record UpdatePostData =
  up_title :: "string option"
  up_content :: "string option"
  up_isPublished :: "bool option"

text \<open>
  A zod schema is a parser: \<open>None\<close> when \<open>parse\<close> throws. \<open>z.object\<close> wants an
  object and ignores unknown keys; \<open>z.string()\<close> and \<open>z.boolean()\<close> want a value of that
  type; \<open>.optional()\<close> also accepts a missing key.
\<close>

definition z_string :: "json option \<Rightarrow> string option" where
  "z_string v = (case v of Some (JStr s) \<Rightarrow> Some s | _ \<Rightarrow> None)"

definition z_string_optional :: "json option \<Rightarrow> string option option" where
  "z_string_optional v =
     (case v of None \<Rightarrow> Some None | Some (JStr s) \<Rightarrow> Some (Some s) | _ \<Rightarrow> None)"

definition z_boolean_optional :: "json option \<Rightarrow> bool option option" where
  "z_boolean_optional v =
     (case v of None \<Rightarrow> Some None | Some (JBool b) \<Rightarrow> Some (Some b) | _ \<Rightarrow> None)"

definition registerSchema :: "runtime \<Rightarrow> json \<Rightarrow> RegisterData option" where
  "registerSchema rt j =
     (case j of
        JObj kvs \<Rightarrow>
          (case (z_string (map_of kvs ''email''), z_string (map_of kvs ''password''),
                 z_string (map_of kvs ''firstName''), z_string (map_of kvs ''lastName'')) of
             (Some e, Some p, Some f, Some l) \<Rightarrow>
               if zod_email rt e \<and> 6 \<le> length p
                  \<and> 1 \<le> length f \<and> length f \<le> 100
                  \<and> 1 \<le> length l \<and> length l \<le> 100
               then Some \<lparr>rd_email = e, rd_password = p, rd_firstName = f, rd_lastName = l\<rparr>
               else None
           | _ \<Rightarrow> None)
      | _ \<Rightarrow> None)"

definition loginSchema :: "runtime \<Rightarrow> json \<Rightarrow> LoginData option" where
  "loginSchema rt j =
     (case j of
        JObj kvs \<Rightarrow>
          (case (z_string (map_of kvs ''email''), z_string (map_of kvs ''password'')) of
             (Some e, Some p) \<Rightarrow>
               if zod_email rt e \<and> 1 \<le> length p
               then Some \<lparr>ld_email = e, ld_password = p\<rparr>
               else None
           | _ \<Rightarrow> None)
      | _ \<Rightarrow> None)"

definition createPostSchema :: "json \<Rightarrow> CreatePostData option" where
  "createPostSchema j =
     (case j of
        JObj kvs \<Rightarrow>
          (case (z_string (map_of kvs ''title''), z_string_optional (map_of kvs ''content''),
                 z_boolean_optional (map_of kvs ''isPublished'')) of
             (Some t, Some c, Some p) \<Rightarrow>
               if 1 \<le> length t \<and> length t \<le> 255
               then Some \<lparr>cp_title = t, cp_content = c,
                          cp_isPublished = Some (case p of None \<Rightarrow> False | Some b \<Rightarrow> b)\<rparr>
               else None
           | _ \<Rightarrow> None)
      | _ \<Rightarrow> None)"

definition updatePostSchema :: "json \<Rightarrow> UpdatePostData option" where
  "updatePostSchema j =
     (case j of
        JObj kvs \<Rightarrow>
          (case (z_string_optional (map_of kvs ''title''),
                 z_string_optional (map_of kvs ''content''),
                 z_boolean_optional (map_of kvs ''isPublished'')) of
             (Some t, Some c, Some p) \<Rightarrow>
               if (case t of None \<Rightarrow> True | Some s \<Rightarrow> 1 \<le> length s \<and> length s \<le> 255)
               then Some \<lparr>up_title = t, up_content = c, up_isPublished = p\<rparr>
               else None
           | _ \<Rightarrow> None)
      | _ \<Rightarrow> None)"

text \<open>
  \<open>idParamSchema\<close> requires the key \<open>id\<close>, a string of digits, and turns it into a
  number with \<open>Number\<close>, which gives the double nearest to the digits' value.
\<close>

definition idParamSchema :: "(string \<times> string) list \<Rightarrow> number option" where
  "idParamSchema ps =
     (case map_of ps ''id'' of
        None \<Rightarrow> None
      | Some s \<Rightarrow> if all_digits s then Some (to_number (digits_val s)) else None)"

text \<open>\<open>paginationSchema\<close>: \<open>page\<close> and \<open>limit\<close> are optional strings of digits.\<close>

definition z_digits_default :: "string option \<Rightarrow> string \<Rightarrow> number option" where
  "z_digits_default v d =
     (let s = (case v of None \<Rightarrow> d | Some x \<Rightarrow> x)
      in if all_digits s then Some (to_number (digits_val s)) else None)"

definition paginationSchema :: "(string \<times> string) list \<Rightarrow> (number \<times> number) option" where
  "paginationSchema q =
     (case (z_digits_default (map_of q ''page'') ''1'',
            z_digits_default (map_of q ''limit'') ''10'') of
        (Some p, Some l) \<Rightarrow> Some (p, l)
      | _ \<Rightarrow> None)"

section \<open>Errors (src/middleware/error.ts)\<close>

record AppError =
  err_message :: string
  err_statusCode :: "int option"
  err_isOperational :: "bool option"
  err_stack :: "string option"

definition createError :: "runtime \<Rightarrow> throw_site \<Rightarrow> string \<Rightarrow> int \<Rightarrow> AppError" where
  "createError rt site message statusCode =
     \<lparr>err_message = message, err_statusCode = Some statusCode,
      err_isOperational = Some True, err_stack = capture_stack rt site\<rparr>"

text \<open>
  What a controller throws: an error made by \<open>createError\<close>, an error of the database
  driver (the database rejected the statement), or a \<open>TypeError\<close> of the runtime.
\<close>

datatype thrown = Thrown AppError | DatabaseError | TypeError

text \<open>
  \<open>errorHandler\<close>. \<open>err.statusCode || 500\<close> and \<open>err.message || '...'\<close> replace a
  missing value and also the falsy \<open>0\<close> and \<open>''\<close>. The \<open>stack\<close> property is spread
  into the body only when \<open>NODE_ENV\<close> is \<open>development\<close>. (The \<open>console.error\<close> call
  has no effect on the response.)
\<close>

definition errorHandler :: "CONFIG \<Rightarrow> AppError \<Rightarrow> response" where
  "errorHandler cfg err =
     (let statusCode = (case err_statusCode err of
                          None \<Rightarrow> 500
                        | Some c \<Rightarrow> if c = 0 then 500 else c);
          message = (if err_message err = [] then ''Internal Server Error''
                     else err_message err)
      in res_status_json statusCode
           (JObj ([(''success'', JBool False), (''message'', JStr message)]
                  @ (if NODE_ENV cfg = ''development''
                     then opt_field ''stack'' (map_option JStr (err_stack err))
                     else []))))"

definition notFound :: "runtime \<Rightarrow> 'b request \<Rightarrow> AppError" where
  "notFound rt req =
     \<lparr>err_message = ''Route '' @ req_originalUrl req @ '' not found'',
      err_statusCode = Some 404, err_isOperational = None,
      err_stack = capture_stack rt Route_not_found\<rparr>"

section \<open>PostgreSQL values\<close>

text \<open>
  The identifiers are \<open>serial\<close> columns, 32-bit integers; \<open>LIMIT\<close> and \<open>OFFSET\<close> are
  64-bit integers. The database rejects a query whose parameter is outside the range of
  its type, or is no integer at all, and the driver then throws. A \<open>varchar(n)\<close> column
  rejects a longer string.
\<close>

definition int4 :: "int \<Rightarrow> bool" where
  "int4 n = (- 2147483648 \<le> n \<and> n \<le> 2147483647)"

definition int8 :: "int \<Rightarrow> bool" where
  "int8 n = (- 9223372036854775808 \<le> n \<and> n \<le> 9223372036854775807)"

definition varchar :: "nat \<Rightarrow> string \<Rightarrow> bool" where
  "varchar n s = (length s \<le> n)"

text \<open>A number compared with an identifier column: \<open>None\<close> when the database rejects it.\<close>

definition id_parameter :: "number \<Rightarrow> int option" where
  "id_parameter a = (case a of Num n \<Rightarrow> if int4 n then Some n else None | _ \<Rightarrow> None)"

section \<open>Middleware\<close>

text \<open>A middleware either answers the request or calls \<open>next()\<close>.\<close>

datatype 'a step = Respond response | Next 'a

type_synonym 'b handler =
  "'b request \<Rightarrow> timestamp \<Rightarrow> db \<Rightarrow> (thrown + response) \<times> db"

subsection \<open>authenticateToken (src/middleware/auth.ts)\<close>

text \<open>
  \<open>authHeader && authHeader.split(' ')[1]\<close>; \<open>None\<close> is a falsy token. The query
  for the user is inside the \<open>try\<close> block: when the database rejects the identifier,
  the \<open>catch\<close> answers 403.
\<close>

definition bearer_token :: "string option \<Rightarrow> string option" where
  "bearer_token authHeader =
     (case authHeader of
        None \<Rightarrow> None
      | Some h \<Rightarrow>
          if h = [] then None
          else (case split_on CHR '' '' h of
                  _ # t # _ \<Rightarrow> if t = [] then None else Some t
                | _ \<Rightarrow> None))"

definition authenticateToken :: "runtime \<Rightarrow> CONFIG \<Rightarrow> 'b request \<Rightarrow> db \<Rightarrow> 'b request step" where
  "authenticateToken rt cfg req d =
     (case bearer_token (req_authorization req) of
        None \<Rightarrow>
          Respond (res_status_json 401
            (JObj [(''success'', JBool False), (''message'', JStr ''Access token required'')]))
      | Some token \<Rightarrow>
          (case jwt_verify rt token (JWT_SECRET cfg) of
             None \<Rightarrow>
               Respond (res_status_json 403
                 (JObj [(''success'', JBool False),
                        (''message'', JStr ''Invalid or expired token'')]))
           | Some userId \<Rightarrow>
               if \<not> int4 userId then
                 Respond (res_status_json 403
                   (JObj [(''success'', JBool False),
                          (''message'', JStr ''Invalid or expired token'')]))
               else
                 (case find (\<lambda>u. user_id u = userId) (users d) of
                    None \<Rightarrow>
                      Respond (res_status_json 401
                        (JObj [(''success'', JBool False),
                               (''message'', JStr ''Invalid token'')]))
                  | Some u \<Rightarrow>
                      Next (req\<lparr>req_user :=
                        Some \<lparr>au_id = user_id u, au_email = user_email u,
                              au_firstName = user_firstName u,
                              au_lastName = user_lastName u\<rparr>\<rparr>))))"

subsection \<open>Request validation (src/middleware/validation.ts)\<close>

text \<open>
  Modelled from the spec: the file src/middleware/validation.ts, which defines
  \<open>validateBody\<close>, \<open>validateParams\<close> and \<open>validateQuery\<close>, is not among the sources.
  The spec says of it that the input shape is validated by the schema before the
  controller runs and that a validation failure is answered with status 400 in the
  uniform envelope \<open>{success, message?, data?, errors?}\<close>. \<open>validation_failed\<close> is
  that answer; the spec fixes its status and \<open>success: false\<close>, not its message.
\<close>

definition validation_failed :: response where
  "validation_failed =
     res_status_json 400
       (JObj [(''success'', JBool False), (''message'', JStr ''Validation failed'')])"

text \<open>
  Modelled from the spec: \<open>validateBody(schema)\<close> of the missing
  src/middleware/validation.ts. It parses \<open>req.body\<close> with the schema; on failure it
  answers 400, on success the controller receives the parsed body (the controllers read
  \<open>req.body\<close> at the schema's type).
\<close>

definition validateBody :: "('a \<Rightarrow> 'b option) \<Rightarrow> 'a request \<Rightarrow> 'b request step" where
  "validateBody schema req =
     (case schema (req_body req) of
        None \<Rightarrow> Respond validation_failed
      | Some data \<Rightarrow>
          Next \<lparr>req_method = req_method req, req_path = req_path req,
                req_originalUrl = req_originalUrl req,
                req_authorization = req_authorization req,
                req_params = req_params req, req_query = req_query req,
                req_body = data, req_user = req_user req\<rparr>)"

text \<open>
  Modelled from the spec: \<open>validateParams(schema)\<close> of the missing
  src/middleware/validation.ts. It parses \<open>req.params\<close> with the schema; on failure it
  answers 400, on success the request goes on as it is (the controllers parse the
  parameters themselves, with \<open>parseInt\<close>).
\<close>

definition validateParams ::
  "((string \<times> string) list \<Rightarrow> 'p option) \<Rightarrow> 'b request \<Rightarrow> 'b request step" where
  "validateParams schema req =
     (case schema (req_params req) of
        None \<Rightarrow> Respond validation_failed
      | Some _ \<Rightarrow> Next req)"

text \<open>
  Modelled from the spec: \<open>validateQuery(schema)\<close> of the missing
  src/middleware/validation.ts. It parses \<open>req.query\<close> with the schema; on failure it
  answers 400, on success the request goes on as it is.
\<close>

definition validateQuery ::
  "((string \<times> string) list \<Rightarrow> 'q option) \<Rightarrow> 'b request \<Rightarrow> 'b request step" where
  "validateQuery schema req =
     (case schema (req_query req) of
        None \<Rightarrow> Respond validation_failed
      | Some _ \<Rightarrow> Next req)"

section \<open>Queries\<close>

text \<open>
  \<open>orderBy(desc(posts.createdAt))\<close>: descending by creation time; PostgreSQL puts
  \<open>NULL\<close> first in a descending order. Rows with equal keys keep their table order.
\<close>

definition created_desc :: "post \<Rightarrow> post \<Rightarrow> bool" where
  "created_desc a b =
     (case post_createdAt a of
        None \<Rightarrow> True
      | Some x \<Rightarrow> (case post_createdAt b of None \<Rightarrow> False | Some y \<Rightarrow> y \<le> x))"

fun insert_by :: "('a \<Rightarrow> 'a \<Rightarrow> bool) \<Rightarrow> 'a \<Rightarrow> 'a list \<Rightarrow> 'a list" where
  "insert_by le x [] = [x]"
| "insert_by le x (y # ys) = (if le x y then x # y # ys else y # insert_by le x ys)"

fun orderBy :: "('a \<Rightarrow> 'a \<Rightarrow> bool) \<Rightarrow> 'a list \<Rightarrow> 'a list" where
  "orderBy le [] = []"
| "orderBy le (x # xs) = insert_by le x (orderBy le xs)"

text \<open>\<open>LIMIT n\<close> and \<open>OFFSET n\<close> of SQL, for \<open>n\<close> not negative.\<close>

fun sql_limit :: "int \<Rightarrow> 'a list \<Rightarrow> 'a list" where
  "sql_limit n [] = []"
| "sql_limit n (x # xs) = (if n \<le> 0 then [] else x # sql_limit (n - 1) xs)"

fun sql_offset :: "int \<Rightarrow> 'a list \<Rightarrow> 'a list" where
  "sql_offset n [] = []"
| "sql_offset n (x # xs) = (if n \<le> 0 then x # xs else sql_offset (n - 1) xs)"

text \<open>
  \<open>.limit(l)\<close>: the query builder writes a \<open>LIMIT\<close> clause only for a number
  \<open>l >= 0\<close>. \<open>None\<close>: the database rejects the value; \<open>Some None\<close>: no clause.
\<close>

definition limit_clause :: "number \<Rightarrow> int option option" where
  "limit_clause limit =
     (case limit of
        Num l \<Rightarrow> if l < 0 then Some None else if int8 l then Some (Some l) else None
      | Infinity \<Rightarrow> None
      | _ \<Rightarrow> Some None)"

text \<open>
  \<open>.offset(o)\<close>: the query builder writes an \<open>OFFSET\<close> clause only for a truthy
  \<open>o\<close>. PostgreSQL rejects a negative \<open>OFFSET\<close>.
\<close>

definition offset_clause :: "number \<Rightarrow> int option option" where
  "offset_clause offset =
     (case offset of
        NaN \<Rightarrow> Some None
      | Num off \<Rightarrow>
          if off = 0 then Some None
          else if 0 < off \<and> int8 off then Some (Some off)
          else None
      | _ \<Rightarrow> None)"

definition limit_offset :: "number \<Rightarrow> number \<Rightarrow> 'a list \<Rightarrow> 'a list option" where
  "limit_offset limit offset rows =
     (case (limit_clause limit, offset_clause offset) of
        (Some l, Some off) \<Rightarrow>
          Some ((case l of None \<Rightarrow> id | Some n \<Rightarrow> sql_limit n)
                  ((case off of None \<Rightarrow> id | Some n \<Rightarrow> sql_offset n) rows))
      | _ \<Rightarrow> None)"

text \<open>The selected columns, as the JSON objects \<open>res.json\<close> sends.\<close>

definition author_json :: "user \<Rightarrow> json" where
  "author_json u =
     JObj [(''id'', JNum (user_id u)), (''firstName'', JStr (user_firstName u)),
           (''lastName'', JStr (user_lastName u)), (''email'', JStr (user_email u))]"

text \<open>
  \<open>leftJoin(users, eq(posts.authorId, users.id))\<close>: \<open>users.id\<close> is the primary key,
  so a post joins with at most one user; without one the \<open>author\<close> is \<open>null\<close>.
\<close>

definition post_with_author_json :: "user list \<Rightarrow> post \<Rightarrow> json" where
  "post_with_author_json us p =
     JObj [(''id'', JNum (post_id p)), (''title'', JStr (post_title p)),
           (''content'', nullable JStr (post_content p)),
           (''isPublished'', nullable JBool (post_isPublished p)),
           (''createdAt'', nullable JDate (post_createdAt p)),
           (''updatedAt'', nullable JDate (post_updatedAt p)),
           (''author'', nullable author_json (find (\<lambda>u. user_id u = post_authorId p) us))]"

definition post_summary_json :: "post \<Rightarrow> json" where
  "post_summary_json p =
     JObj [(''id'', JNum (post_id p)), (''title'', JStr (post_title p)),
           (''content'', nullable JStr (post_content p)),
           (''isPublished'', nullable JBool (post_isPublished p)),
           (''createdAt'', nullable JDate (post_createdAt p)),
           (''updatedAt'', nullable JDate (post_updatedAt p))]"

definition post_json :: "post \<Rightarrow> json" where
  "post_json p =
     JObj [(''id'', JNum (post_id p)), (''title'', JStr (post_title p)),
           (''content'', nullable JStr (post_content p)),
           (''authorId'', JNum (post_authorId p)),
           (''isPublished'', nullable JBool (post_isPublished p)),
           (''createdAt'', nullable JDate (post_createdAt p)),
           (''updatedAt'', nullable JDate (post_updatedAt p))]"

definition auth_user_json :: "auth_user \<Rightarrow> json" where
  "auth_user_json u =
     JObj [(''id'', JNum (au_id u)), (''email'', JStr (au_email u)),
           (''firstName'', JStr (au_firstName u)), (''lastName'', JStr (au_lastName u))]"

text \<open>The \<open>returning({...})\<close> clause of the registration insert.\<close>

definition registered_user_json :: "user \<Rightarrow> json" where
  "registered_user_json u =
     JObj [(''id'', JNum (user_id u)), (''email'', JStr (user_email u)),
           (''firstName'', JStr (user_firstName u)), (''lastName'', JStr (user_lastName u)),
           (''createdAt'', nullable JDate (user_createdAt u))]"

text \<open>\<open>const { password: _, ...userWithoutPassword } = user[0]\<close>, a full row.\<close>

definition userWithoutPassword :: "user \<Rightarrow> json" where
  "userWithoutPassword u =
     JObj [(''id'', JNum (user_id u)), (''email'', JStr (user_email u)),
           (''firstName'', JStr (user_firstName u)), (''lastName'', JStr (user_lastName u)),
           (''isActive'', nullable JBool (user_isActive u)),
           (''createdAt'', nullable JDate (user_createdAt u)),
           (''updatedAt'', nullable JDate (user_updatedAt u))]"

section \<open>AuthController (src/controllers/authController.ts)\<close>

text \<open>
  A handler answers (\<open>Inr\<close>) or throws (\<open>Inl\<close>), and returns the database it leaves.
  The insert takes the next value of the \<open>serial\<close> sequence, fills the column defaults
  (\<open>isActive\<close> true, both timestamps now), and fails when the primary key collides or
  a value does not fit its column; the value of the sequence is used up all the same.
\<close>

definition register :: "runtime \<Rightarrow> CONFIG \<Rightarrow> RegisterData handler" where
  "register rt cfg req now d =
     (let data = req_body req in
      case find (\<lambda>u. user_email u = rd_email data) (users d) of
        Some _ \<Rightarrow>
          (Inl (Thrown (createError rt Register_existing
                  ''User with this email already exists'' 400)), d)
      | None \<Rightarrow>
          (let saltRounds = 12;
               hashedPassword = bcrypt_hash rt (rd_password data) saltRounds;
               row = \<lparr>user_id = users_id_seq d, user_email = rd_email data,
                      user_password = hashedPassword,
                      user_firstName = rd_firstName data, user_lastName = rd_lastName data,
                      user_isActive = Some True,
                      user_createdAt = Some now, user_updatedAt = Some now\<rparr>;
               d1 = d\<lparr>users_id_seq := users_id_seq d + 1\<rparr>
           in if list_ex (\<lambda>u. user_id u = user_id row) (users d)
                 \<or> \<not> int4 (user_id row)
                 \<or> \<not> varchar 255 (user_email row) \<or> \<not> varchar 255 (user_password row)
                 \<or> \<not> varchar 100 (user_firstName row) \<or> \<not> varchar 100 (user_lastName row)
              then (Inl DatabaseError, d1)
              else
                (let token = jwt_sign rt (user_id row) (JWT_SECRET cfg) (JWT_EXPIRES_IN cfg)
                 in (Inr (res_status_json 201
                       (JObj [(''success'', JBool True),
                              (''message'', JStr ''User registered successfully''),
                              (''data'', JObj [(''user'', registered_user_json row),
                                               (''token'', JStr token)])])),
                     d1\<lparr>users := users d @ [row]\<rparr>))))"

definition login :: "runtime \<Rightarrow> CONFIG \<Rightarrow> LoginData handler" where
  "login rt cfg req now d =
     (let data = req_body req in
      case find (\<lambda>u. user_email u = ld_email data) (users d) of
        None \<Rightarrow>
          (Inl (Thrown (createError rt Login_no_user ''Invalid email or password'' 401)), d)
      | Some u \<Rightarrow>
          if \<not> bcrypt_compare rt (ld_password data) (user_password u)
          then (Inl (Thrown (createError rt Login_bad_password
                       ''Invalid email or password'' 401)), d)
          else
            (let token = jwt_sign rt (user_id u) (JWT_SECRET cfg) (JWT_EXPIRES_IN cfg)
             in (Inr (res_json
                   (JObj [(''success'', JBool True),
                          (''message'', JStr ''Login successful''),
                          (''data'', JObj [(''user'', userWithoutPassword u),
                                           (''token'', JStr token)])])),
                 d)))"

definition getProfile :: "'b handler" where
  "getProfile req now d =
     (Inr (res_json
        (JObj [(''success'', JBool True),
               (''data'', JObj (opt_field ''user'' (map_option auth_user_json (req_user req))))])),
      d)"

section \<open>PostController (src/controllers/postController.ts)\<close>

text \<open>\<open>hasMore: allPosts.length === limit\<close>.\<close>

definition pagination_json :: "number \<Rightarrow> number \<Rightarrow> nat \<Rightarrow> json" where
  "pagination_json page limit n =
     JObj [(''page'', number_json page), (''limit'', number_json limit),
           (''hasMore'', JBool (limit = Num (int n)))]"

definition getAllPosts :: "'b handler" where
  "getAllPosts req now d =
     (let page = or_default (parseInt (map_of (req_query req) ''page'')) 1;
          limit = or_default (parseInt (map_of (req_query req) ''limit'')) 10;
          offset = times (minus_one page) limit
      in case limit_offset limit offset (orderBy created_desc (posts d)) of
           None \<Rightarrow> (Inl DatabaseError, d)
         | Some allPosts \<Rightarrow>
             (Inr (res_json
                (JObj [(''success'', JBool True),
                       (''data'',
                        JObj [(''posts'', JArr (map (post_with_author_json (users d)) allPosts)),
                              (''pagination'',
                               pagination_json page limit (length allPosts))])])),
              d))"

text \<open>
  \<open>parseInt\<close> of a parameter that is no number is \<open>NaN\<close>, which the database rejects
  as a value for an integer column, as it does a number outside the 32 bits of the
  column.
\<close>

definition getPostById :: "runtime \<Rightarrow> 'b handler" where
  "getPostById rt req now d =
     (case id_parameter (parseInt (map_of (req_params req) ''id'')) of
        None \<Rightarrow> (Inl DatabaseError, d)
      | Some n \<Rightarrow>
          (case find (\<lambda>p. post_id p = n) (posts d) of
             None \<Rightarrow> (Inl (Thrown (createError rt GetPost_not_found ''Post not found'' 404)), d)
           | Some p \<Rightarrow>
               (Inr (res_json
                  (JObj [(''success'', JBool True),
                         (''data'', JObj [(''post'', post_with_author_json (users d) p)])])),
                d)))"

text \<open>
  \<open>req.user!.id\<close> throws a \<open>TypeError\<close> when no user is attached. The insert takes
  the next value of the sequence, fills the defaults, and fails when the primary key
  collides, the foreign key \<open>author_id\<close> names no user, or a value does not fit its
  column.
\<close>

definition createPost :: "CreatePostData handler" where
  "createPost req now d =
     (let data = req_body req in
      case req_user req of
        None \<Rightarrow> (Inl TypeError, d)
      | Some user \<Rightarrow>
          (let userId = au_id user;
               row = \<lparr>post_id = posts_id_seq d, post_title = cp_title data,
                      post_content = cp_content data, post_authorId = userId,
                      post_isPublished =
                        Some (case cp_isPublished data of None \<Rightarrow> False | Some b \<Rightarrow> b),
                      post_createdAt = Some now, post_updatedAt = Some now\<rparr>;
               d1 = d\<lparr>posts_id_seq := posts_id_seq d + 1\<rparr>
           in if list_ex (\<lambda>p. post_id p = post_id row) (posts d)
                 \<or> \<not> list_ex (\<lambda>u. user_id u = userId) (users d)
                 \<or> \<not> int4 (post_id row) \<or> \<not> varchar 255 (post_title row)
              then (Inl DatabaseError, d1)
              else
                (Inr (res_status_json 201
                   (JObj [(''success'', JBool True),
                          (''message'', JStr ''Post created successfully''),
                          (''data'', JObj [(''post'', post_json row)])])),
                 d1\<lparr>posts := posts d @ [row]\<rparr>)))"

text \<open>
  \<open>.set({...updateData, updatedAt: new Date()})\<close>: a key whose value is
  \<open>undefined\<close> leaves its column as it is.
\<close>

definition set_post :: "UpdatePostData \<Rightarrow> timestamp \<Rightarrow> post \<Rightarrow> post" where
  "set_post updateData now p =
     p\<lparr>post_title := (case up_title updateData of None \<Rightarrow> post_title p | Some t \<Rightarrow> t),
       post_content := (case up_content updateData of
                          None \<Rightarrow> post_content p | Some c \<Rightarrow> Some c),
       post_isPublished := (case up_isPublished updateData of
                              None \<Rightarrow> post_isPublished p | Some b \<Rightarrow> Some b),
       post_updatedAt := Some now\<rparr>"

definition updatePost :: "runtime \<Rightarrow> UpdatePostData handler" where
  "updatePost rt req now d =
     (case req_user req of
        None \<Rightarrow> (Inl TypeError, d)
      | Some user \<Rightarrow>
          (let userId = au_id user; updateData = req_body req in
           case id_parameter (parseInt (map_of (req_params req) ''id'')) of
             None \<Rightarrow> (Inl DatabaseError, d)
           | Some n \<Rightarrow>
               (case find (\<lambda>p. post_id p = n) (posts d) of
                  None \<Rightarrow>
                    (Inl (Thrown (createError rt UpdatePost_not_found ''Post not found'' 404)), d)
                | Some existingPost \<Rightarrow>
                    if post_authorId existingPost \<noteq> userId
                    then (Inl (Thrown (createError rt UpdatePost_not_owner
                                 ''Not authorized to update this post'' 403)), d)
                    else if (case up_title updateData of
                               None \<Rightarrow> False | Some t \<Rightarrow> \<not> varchar 255 t)
                    then (Inl DatabaseError, d)
                    else
                      (let updatedPost =
                             map (set_post updateData now)
                                 (filter (\<lambda>p. post_id p = n) (posts d));
                           d1 = d\<lparr>posts := map (\<lambda>p. if post_id p = n
                                                    then set_post updateData now p else p)
                                               (posts d)\<rparr>
                       in (Inr (res_json
                             (JObj [(''success'', JBool True),
                                    (''message'', JStr ''Post updated successfully''),
                                    (''data'',
                                     JObj (opt_field ''post''
                                       (case updatedPost of
                                          [] \<Rightarrow> None
                                        | p # _ \<Rightarrow> Some (post_json p))))])),
                           d1)))))"

definition deletePost :: "runtime \<Rightarrow> 'b handler" where
  "deletePost rt req now d =
     (case req_user req of
        None \<Rightarrow> (Inl TypeError, d)
      | Some user \<Rightarrow>
          (let userId = au_id user in
           case id_parameter (parseInt (map_of (req_params req) ''id'')) of
             None \<Rightarrow> (Inl DatabaseError, d)
           | Some n \<Rightarrow>
               (case find (\<lambda>p. post_id p = n) (posts d) of
                  None \<Rightarrow>
                    (Inl (Thrown (createError rt DeletePost_not_found ''Post not found'' 404)), d)
                | Some existingPost \<Rightarrow>
                    if post_authorId existingPost \<noteq> userId
                    then (Inl (Thrown (createError rt DeletePost_not_owner
                                 ''Not authorized to delete this post'' 403)), d)
                    else
                      (Inr (res_json
                         (JObj [(''success'', JBool True),
                                (''message'', JStr ''Post deleted successfully'')])),
                       d\<lparr>posts := filter (\<lambda>p. post_id p \<noteq> n) (posts d)\<rparr>))))"

definition getPostsByUserId :: "'b handler" where
  "getPostsByUserId req now d =
     (let page = or_default (parseInt (map_of (req_query req) ''page'')) 1;
          limit = or_default (parseInt (map_of (req_query req) ''limit'')) 10;
          offset = times (minus_one page) limit
      in case id_parameter (parseInt (map_of (req_params req) ''userId'')) of
           None \<Rightarrow> (Inl DatabaseError, d)
         | Some uid \<Rightarrow>
             (case limit_offset limit offset
                     (orderBy created_desc (filter (\<lambda>p. post_authorId p = uid) (posts d))) of
                None \<Rightarrow> (Inl DatabaseError, d)
              | Some userPosts \<Rightarrow>
                  (Inr (res_json
                     (JObj [(''success'', JBool True),
                            (''data'',
                             JObj [(''posts'', JArr (map post_summary_json userPosts)),
                                   (''pagination'',
                                    pagination_json page limit (length userPosts))])])),
                   d)))"

section \<open>Routes (src/routes) and the application (src/app.ts)\<close>

text \<open>
  The controllers are \<open>async\<close> functions, and the route files register them as they
  are. The application is an Express 4 application (its catch-all \<open>app.use('*', ...)\<close>
  is an Express 4 path), and Express 4 does not look at the promise a handler returns.
  So when a controller throws, its promise is rejected and nothing else happens: no
  response is written, \<open>errorHandler\<close> is not called, and the rejection stays
  unhandled. \<open>Unanswered\<close> is that outcome. \<open>errorHandler\<close> is reached only through
  \<open>next(error)\<close>, which \<open>notFound\<close> calls.
\<close>

datatype reply = Sent response | Unanswered thrown

definition sent_status :: "reply \<Rightarrow> int option" where
  "sent_status r = (case r of Sent res \<Rightarrow> Some (res_status res) | Unanswered _ \<Rightarrow> None)"

definition serve :: "'b handler \<Rightarrow> 'b request \<Rightarrow> timestamp \<Rightarrow> db \<Rightarrow> reply \<times> db" where
  "serve h req now d =
     (case h req now d of
        (Inl err, d') \<Rightarrow> (Unanswered err, d')
      | (Inr res, d') \<Rightarrow> (Sent res, d'))"

definition and_then :: "'a step \<Rightarrow> ('a \<Rightarrow> 'b step) \<Rightarrow> 'b step" where
  "and_then st f = (case st of Respond r \<Rightarrow> Respond r | Next x \<Rightarrow> f x)"

definition then_serve ::
  "'b request step \<Rightarrow> 'b handler \<Rightarrow> timestamp \<Rightarrow> db \<Rightarrow> reply \<times> db" where
  "then_serve st h now d =
     (case st of Respond r \<Rightarrow> (Sent r, d) | Next req \<Rightarrow> serve h req now d)"

text \<open>The controllers the route files import.\<close>

record controllers =
  ctl_register :: "RegisterData handler"
  ctl_login :: "LoginData handler"
  ctl_getProfile :: "json handler"
  ctl_getAllPosts :: "json handler"
  ctl_getPostById :: "json handler"
  ctl_getPostsByUserId :: "json handler"
  ctl_createPost :: "CreatePostData handler"
  ctl_updatePost :: "UpdatePostData handler"
  ctl_deletePost :: "json handler"

text \<open>
  A router gives \<open>None\<close> when none of its routes matches the method and the path; the
  request then falls through to what is mounted after it. A route sets
  \<open>req.params\<close> from its pattern and runs its middleware from left to right. A fixed
  segment matches whatever the case of its letters; a parameter such as \<open>:id\<close> matches
  one segment.
\<close>

definition authRoutes ::
  "runtime \<Rightarrow> CONFIG \<Rightarrow> controllers \<Rightarrow> string list \<Rightarrow> json request \<Rightarrow> timestamp \<Rightarrow> db
     \<Rightarrow> (reply \<times> db) option" where
  "authRoutes rt cfg C path req now d =
     (if req_method req = POST \<and> map lowercase path = [''register''] then
        Some (then_serve (validateBody (registerSchema rt) (req\<lparr>req_params := []\<rparr>))
                (ctl_register C) now d)
      else if req_method req = POST \<and> map lowercase path = [''login''] then
        Some (then_serve (validateBody (loginSchema rt) (req\<lparr>req_params := []\<rparr>))
                (ctl_login C) now d)
      else if req_method req = GET \<and> map lowercase path = [''me''] then
        Some (then_serve (authenticateToken rt cfg (req\<lparr>req_params := []\<rparr>) d)
                (ctl_getProfile C) now d)
      else None)"

definition postRoutes ::
  "runtime \<Rightarrow> CONFIG \<Rightarrow> controllers \<Rightarrow> string list \<Rightarrow> json request \<Rightarrow> timestamp \<Rightarrow> db
     \<Rightarrow> (reply \<times> db) option" where
  "postRoutes rt cfg C path req now d =
     (case (req_method req, path) of
        (GET, []) \<Rightarrow>
          Some (then_serve (validateQuery paginationSchema (req\<lparr>req_params := []\<rparr>))
                  (ctl_getAllPosts C) now d)
      | (GET, [pid]) \<Rightarrow>
          Some (then_serve
                  (validateParams idParamSchema (req\<lparr>req_params := [(''id'', pid)]\<rparr>))
                  (ctl_getPostById C) now d)
      | (GET, [seg, userId]) \<Rightarrow>
          if lowercase seg = ''user'' then
            Some (then_serve
                    (and_then
                       (validateParams idParamSchema
                          (req\<lparr>req_params := [(''userId'', userId)]\<rparr>))
                       (validateQuery paginationSchema))
                    (ctl_getPostsByUserId C) now d)
          else None
      | (POST, []) \<Rightarrow>
          Some (then_serve
                  (and_then (authenticateToken rt cfg (req\<lparr>req_params := []\<rparr>) d)
                     (validateBody createPostSchema))
                  (ctl_createPost C) now d)
      | (PUT, [pid]) \<Rightarrow>
          Some (then_serve
                  (and_then
                     (and_then
                        (authenticateToken rt cfg (req\<lparr>req_params := [(''id'', pid)]\<rparr>) d)
                        (validateParams idParamSchema))
                     (validateBody updatePostSchema))
                  (ctl_updatePost C) now d)
      | (DELETE, [pid]) \<Rightarrow>
          Some (then_serve
                  (and_then
                     (authenticateToken rt cfg (req\<lparr>req_params := [(''id'', pid)]\<rparr>) d)
                     (validateParams idParamSchema))
                  (ctl_deletePost C) now d)
      | _ \<Rightarrow> None)"

definition health :: "timestamp \<Rightarrow> response" where
  "health now =
     res_json (JObj [(''success'', JBool True), (''message'', JStr ''API is running''),
                     (''timestamp'', JDate now)])"

definition routes ::
  "runtime \<Rightarrow> CONFIG \<Rightarrow> controllers \<Rightarrow> string list \<Rightarrow> json request \<Rightarrow> timestamp \<Rightarrow> db
     \<Rightarrow> (reply \<times> db) option" where
  "routes rt cfg C path req now d =
     (if req_method req = GET \<and> map lowercase path = [''health''] then Some (Sent (health now), d)
      else (case path of
              [] \<Rightarrow> None
            | seg # rest \<Rightarrow>
                if lowercase seg = ''auth'' then authRoutes rt cfg C rest req now d
                else if lowercase seg = ''posts'' then postRoutes rt cfg C rest req now d
                else None))"

definition root :: response where
  "root =
     res_json (JObj [(''success'', JBool True),
                     (''message'', JStr ''Welcome to Node.js Express TypeScript API''),
                     (''version'', JStr ''1.0.0''),
                     (''documentation'', JStr ''/api/docs''),
                     (''endpoints'',
                      JObj [(''health'', JStr ''/api/health''), (''auth'', JStr ''/api/auth''),
                            (''posts'', JStr ''/api/posts'')])])"

text \<open>
  The documentation pages under \<open>/api/docs\<close> are served by swagger-ui-express; only
  the fact that they answer without touching the database is modelled.
\<close>

definition swaggerUi :: response where
  "swaggerUi = res_json (JStr ''API Documentation'')"

definition app ::
  "runtime \<Rightarrow> CONFIG \<Rightarrow> controllers \<Rightarrow> json request \<Rightarrow> timestamp \<Rightarrow> db \<Rightarrow> reply \<times> db" where
  "app rt cfg C req now d =
     (if map lowercase (take 2 (req_path req)) = [''api'', ''docs''] then (Sent swaggerUi, d)
      else
        (case (if map lowercase (take 1 (req_path req)) = [''api'']
               then routes rt cfg C (drop 1 (req_path req)) req now d else None) of
           Some out \<Rightarrow> out
         | None \<Rightarrow>
             if req_method req = GET \<and> req_path req = [] then (Sent root, d)
             else (Sent (errorHandler cfg (notFound rt req)), d)))"

definition PostController_AuthController :: "runtime \<Rightarrow> CONFIG \<Rightarrow> controllers" where
  "PostController_AuthController rt cfg =
     \<lparr>ctl_register = register rt cfg, ctl_login = login rt cfg, ctl_getProfile = getProfile,
      ctl_getAllPosts = getAllPosts, ctl_getPostById = getPostById rt,
      ctl_getPostsByUserId = getPostsByUserId, ctl_createPost = createPost,
      ctl_updatePost = updatePost rt, ctl_deletePost = deletePost rt\<rparr>"

definition server :: "runtime \<Rightarrow> CONFIG \<Rightarrow> json request \<Rightarrow> timestamp \<Rightarrow> db \<Rightarrow> reply \<times> db" where
  "server rt cfg = app rt cfg (PostController_AuthController rt cfg)"

section \<open>Database states that differ only in \<open>isActive\<close>\<close>

text \<open>
  \<open>redact_isActive\<close> blanks the value under every key \<open>isActive\<close> of a JSON value;
  two bodies with the same redaction differ at most in such values.
\<close>

primrec redact_isActive :: "json \<Rightarrow> json" where
  "redact_isActive JNull = JNull"
| "redact_isActive (JBool b) = JBool b"
| "redact_isActive (JNum n) = JNum n"
| "redact_isActive (JStr s) = JStr s"
| "redact_isActive (JDate t) = JDate t"
| "redact_isActive (JArr xs) = JArr (map redact_isActive xs)"
| "redact_isActive (JObj kvs) =
     JObj (map (\<lambda>kv. if fst kv = ''isActive'' then (fst kv, JNull) else kv)
             (map (map_prod id redact_isActive) kvs))"

text \<open>
  Two database states are \<open>same_but_isActive\<close> when they have the same posts, the
  same sequences and the same user rows up to the \<open>isActive\<close> column.
\<close>

definition without_isActive :: "user \<Rightarrow> user" where
  "without_isActive u = u\<lparr>user_isActive := None\<rparr>"

definition same_but_isActive :: "db \<Rightarrow> db \<Rightarrow> bool" where
  "same_but_isActive d1 d2 =
     (map without_isActive (users d1) = map without_isActive (users d2)
      \<and> posts d1 = posts d2
      \<and> users_id_seq d1 = users_id_seq d2 \<and> posts_id_seq d1 = posts_id_seq d2)"

text \<open>
  Two outcomes of a request are \<open>identical\<close> when the replies are equal and the
  states again differ only in \<open>isActive\<close>; they are \<open>alike\<close> when the replies are
  equal up to the \<open>isActive\<close> values of the body.
\<close>

definition redact_reply :: "reply \<Rightarrow> reply" where
  "redact_reply r =
     (case r of
        Sent res \<Rightarrow> Sent (res\<lparr>res_body := redact_isActive (res_body res)\<rparr>)
      | Unanswered err \<Rightarrow> Unanswered err)"

definition alike :: "reply \<times> db \<Rightarrow> reply \<times> db \<Rightarrow> bool" where
  "alike o1 o2 =
     (redact_reply (fst o1) = redact_reply (fst o2) \<and> same_but_isActive (snd o1) (snd o2))"

definition same_outcome :: "(thrown + response) \<times> db \<Rightarrow> (thrown + response) \<times> db \<Rightarrow> bool" where
  "same_outcome o1 o2 = (fst o1 = fst o2 \<and> same_but_isActive (snd o1) (snd o2))"

definition identical :: "reply \<times> db \<Rightarrow> reply \<times> db \<Rightarrow> bool" where
  "identical o1 o2 = (fst o1 = fst o2 \<and> same_but_isActive (snd o1) (snd o2))"

section \<open>Example values\<close>

text \<open>
  A configuration, stand-ins for the libraries, and a small database with two users
  (each the author of one post), used to run the definitions on concrete inputs.
\<close>

definition ex_config :: "string \<Rightarrow> CONFIG" where
  "ex_config env =
     \<lparr>PORT = 3000, NODE_ENV = env, DATABASE_URL = ''postgresql://localhost/app'',
      JWT_SECRET = ''secret'', JWT_EXPIRES_IN = ''7d'',
      CORS_ORIGIN = ''http://localhost:3000''\<rparr>"

definition ex_stack :: "throw_site \<Rightarrow> string option" where
  "ex_stack site =
     Some (case site of
             Register_existing \<Rightarrow> ''at register (authController.ts:57)''
           | Login_no_user \<Rightarrow> ''at login (authController.ts:139)''
           | Login_bad_password \<Rightarrow> ''at login (authController.ts:145)''
           | _ \<Rightarrow> ''at handler'')"

definition ex_runtime :: runtime where
  "ex_runtime =
     \<lparr>bcrypt_hash = (\<lambda>p rounds. ''$2a$12$'' @ p),
      bcrypt_compare = (\<lambda>p h. h = ''$2a$12$'' @ p),
      jwt_sign = (\<lambda>userId secret expiresIn.
         if userId = 1 then ''t1'' else if userId = 2 then ''t2'' else ''t3''),
      jwt_verify = (\<lambda>token secret.
         if token = ''t1'' then Some 1 else if token = ''t2'' then Some 2
         else if token = ''t3'' then Some 3 else None),
      zod_email = (\<lambda>s. CHR ''@'' \<in> set s),
      capture_stack = ex_stack\<rparr>"

definition ex_user :: "int \<Rightarrow> string \<Rightarrow> string \<Rightarrow> bool \<Rightarrow> user" where
  "ex_user i mail pw active =
     \<lparr>user_id = i, user_email = mail, user_password = ''$2a$12$'' @ pw,
      user_firstName = ''Ann'', user_lastName = ''Lee'', user_isActive = Some active,
      user_createdAt = Some 1000, user_updatedAt = Some 1000\<rparr>"

definition ex_post :: "int \<Rightarrow> int \<Rightarrow> timestamp \<Rightarrow> post" where
  "ex_post i author t =
     \<lparr>post_id = i, post_title = ''Hello'', post_content = None, post_authorId = author,
      post_isPublished = Some False, post_createdAt = Some t, post_updatedAt = Some t\<rparr>"

definition ex_db :: db where
  "ex_db =
     \<lparr>users = [ex_user 1 ''a@x.io'' ''alicepw'' True, ex_user 2 ''b@x.io'' ''bobpw'' True],
      posts = [ex_post 1 1 2000, ex_post 2 2 3000],
      users_id_seq = 3, posts_id_seq = 3\<rparr>"

definition ex_request ::
  "http_method \<Rightarrow> string list \<Rightarrow> string option \<Rightarrow> (string \<times> string) list
     \<Rightarrow> (string \<times> string) list \<Rightarrow> 'b \<Rightarrow> 'b request" where
  "ex_request m path auth ps q b =
     \<lparr>req_method = m, req_path = path, req_originalUrl = ''/'',
      req_authorization = auth, req_params = ps, req_query = q, req_body = b,
      req_user = None\<rparr>"

definition ex_error :: AppError where
  "ex_error =
     \<lparr>err_message = ''boom'', err_statusCode = None, err_isOperational = None,
      err_stack = Some ''at f (a.ts:1:1)''\<rparr>"

text \<open>A database with fifteen posts, created at fifteen different times.\<close>

definition ex_db15 :: db where
  "ex_db15 =
     \<lparr>users = [ex_user 1 ''a@x.io'' ''alicepw'' True],
      posts = map (\<lambda>i. ex_post i 1 (1000 * i)) [1, 2, 3, 4, 5, 6, 7, 8, 9, 10, 11, 12, 13, 14, 15],
      users_id_seq = 2, posts_id_seq = 16\<rparr>"

text \<open>The example database with the first user deactivated, and a login of that user.\<close>

definition ex_db_deactivated :: db where
  "ex_db_deactivated =
     ex_db\<lparr>users := [ex_user 1 ''a@x.io'' ''alicepw'' False, ex_user 2 ''b@x.io'' ''bobpw'' True]\<rparr>"

definition ex_login :: "json request" where
  "ex_login =
     ex_request POST [''api'', ''auth'', ''login''] None [] []
       (JObj [(''email'', JStr ''a@x.io''), (''password'', JStr ''alicepw'')])"

text \<open>A registration with an e-mail that is not yet stored.\<close>

definition ex_register :: "json request" where
  "ex_register =
     ex_request POST [''api'', ''auth'', ''register''] None [] []
       (JObj [(''email'', JStr ''c@x.io''), (''password'', JStr ''secret1''),
              (''firstName'', JStr ''Cy''), (''lastName'', JStr ''Lee'')])"

text \<open>A registration with the e-mail of the first user.\<close>

definition ex_register_taken :: "json request" where
  "ex_register_taken =
     ex_request POST [''api'', ''auth'', ''register''] None [] []
       (JObj [(''email'', JStr ''a@x.io''), (''password'', JStr ''secret1''),
              (''firstName'', JStr ''Al''), (''lastName'', JStr ''Lee'')])"

text \<open>Two failing logins: an e-mail that is not stored, and a wrong password.\<close>

definition ex_login_unknown :: "json request" where
  "ex_login_unknown =
     ex_request POST [''api'', ''auth'', ''login''] None [] []
       (JObj [(''email'', JStr ''nobody@x.io''), (''password'', JStr ''alicepw'')])"

definition ex_login_wrong :: "json request" where
  "ex_login_wrong =
     ex_request POST [''api'', ''auth'', ''login''] None [] []
       (JObj [(''email'', JStr ''a@x.io''), (''password'', JStr ''wrong'')])"

text \<open>
  The second user, with a valid token, updates and deletes the post of the first; and a
  request without a token reads it.
\<close>

definition ex_update_by_other :: "json request" where
  "ex_update_by_other =
     ex_request PUT [''api'', ''posts'', ''1''] (Some ''Bearer t2'') [] []
       (JObj [(''title'', JStr ''Mine now'')])"

definition ex_delete_by_other :: "json request" where
  "ex_delete_by_other =
     ex_request DELETE [''api'', ''posts'', ''1''] (Some ''Bearer t2'') [] [] (JObj [])"

definition ex_read :: "json request" where
  "ex_read = ex_request GET [''api'', ''posts'', ''1''] None [] [] (JObj [])"

text \<open>
  Two pages of the list of posts: one whose number exceeds every safe integer, and the
  second.
\<close>

definition ex_page_huge :: "json request" where
  "ex_page_huge =
     ex_request GET [''api'', ''posts''] None []
       [(''page'', ''99999999999999999999''), (''limit'', ''10'')] (JObj [])"

definition ex_page2 :: "json request" where
  "ex_page2 =
     ex_request GET [''api'', ''posts''] None [] [(''page'', ''2''), (''limit'', ''10'')]
       (JObj [])"

section \<open>Basic facts\<close>

lemma find_Some_iff_ex: "(\<exists>x. find P xs = Some x) \<longleftrightarrow> (\<exists>x\<in>set xs. P x)"
  by (induction xs) auto

text \<open>
  Integers up to \<open>Number.MAX_SAFE_INTEGER\<close> are JavaScript numbers as they are, and
  \<open>LIMIT\<close> and \<open>OFFSET\<close> are \<open>take\<close> and \<open>drop\<close>.
\<close>

lemma bit_length_le: "n < 2 ^ k \<Longrightarrow> bit_length n \<le> k"
proof (induction k arbitrary: n)
  case 0
  then show ?case by (simp add: bit_length.simps)
next
  case (Suc k)
  show ?case
  proof (cases "n \<le> 0")
    case True
    then show ?thesis by (simp add: bit_length.simps)
  next
    case False
    from Suc.prems have "n div 2 < 2 ^ k" by simp
    from Suc.IH [OF this] False show ?thesis
      by (subst bit_length.simps) simp
  qed
qed

lemma round53_safe: "n \<le> MAX_SAFE_INTEGER \<Longrightarrow> round53 n = n"
proof -
  assume "n \<le> MAX_SAFE_INTEGER"
  then have "n < 2 ^ 53" by (simp add: MAX_SAFE_INTEGER_def)
  from bit_length_le [OF this] show ?thesis
    by (simp add: round53_def)
qed

lemma to_number_safe:
  assumes "\<bar>i\<bar> \<le> MAX_SAFE_INTEGER"
  shows "to_number i = Num i"
proof -
  have "\<bar>i\<bar> < 2 ^ 1024"
    using assms by (simp add: MAX_SAFE_INTEGER_def)
  with round53_safe [OF assms] show ?thesis
    by (simp add: to_number_def Let_def)
qed

lemma sql_limit_take: "sql_limit n xs = take (nat n) xs"
proof (induction xs arbitrary: n)
  case Nil
  then show ?case by simp
next
  case (Cons x xs)
  show ?case
  proof (cases "n \<le> 0")
    case True
    then show ?thesis by simp
  next
    case False
    then have "nat n = Suc (nat (n - 1))" by simp
    with False Cons.IH [of "n - 1"] show ?thesis by simp
  qed
qed

lemma sql_offset_drop: "sql_offset n xs = drop (nat n) xs"
proof (induction xs arbitrary: n)
  case Nil
  then show ?case by simp
next
  case (Cons x xs)
  show ?case
  proof (cases "n \<le> 0")
    case True
    then show ?thesis by simp
  next
    case False
    then have "nat n = Suc (nat (n - 1))" by simp
    with False Cons.IH [of "n - 1"] show ?thesis by simp
  qed
qed

text \<open>
  \<open>parseInt\<close> of a string of digits is the number nearest to its value.
\<close>

lemma digit_not_space: "is_digit c \<Longrightarrow> \<not> is_space c"
  by (auto simp: is_digit_def is_space_def)

lemma digit_not_sign:
  "is_digit c \<Longrightarrow> c \<noteq> CHR ''-'' \<and> c \<noteq> CHR ''+'' \<and> c \<noteq> CHR ''x'' \<and> c \<noteq> CHR ''X''"
  by (auto simp: is_digit_def)

lemma parseInt_digits:
  assumes "all_digits s"
  shows "parseInt (Some s) = to_number (digits_val s)"
proof -
  from assms obtain c r where s: "s = c # r" and c: "is_digit c" and r: "list_all is_digit r"
    by (cases s) (auto simp: all_digits_def)
  from r have tw: "takeWhile is_digit r = r"
    by (simp add: list_all_iff)
  have nohex: "take 2 s \<noteq> ''0x''" "take 2 s \<noteq> ''0X''"
    using s r digit_not_sign by (cases r; auto)+
  from c tw s have tws: "takeWhile is_digit s = s" and "s \<noteq> []"
    by simp_all
  then have "parse_unsigned s = Some (digits_val s)"
    unfolding parse_unsigned_def Let_def tws using nohex by (simp only: simp_thms if_False)
  with s c digit_not_space [OF c] digit_not_sign [OF c] show ?thesis
    by (simp add: parseInt_def parseInt_str_def)
qed

lemma digits_val_examples:
  "digits_val ''1'' = 1" "digits_val ''2'' = 2" "digits_val ''10'' = 10"
  "digits_val ''99999999999999999999'' = 99999999999999999999"
  by (simp_all add: digits_val_def digit_val_def)

lemma all_digits_examples:
  "all_digits ''1''" "all_digits ''2''" "all_digits ''10''"
  "all_digits ''99999999999999999999''"
  by (simp_all add: all_digits_def is_digit_def)

lemma parseInt_examples:
  "parseInt (Some ''1'') = Num 1" "parseInt (Some ''2'') = Num 2"
  "parseInt (Some ''10'') = Num 10"
  by (simp_all add: parseInt_digits all_digits_examples digits_val_examples to_number_safe
        MAX_SAFE_INTEGER_def)

lemma to_number_huge:
  "to_number 99999999999999999999 = Num 100000000000000000000"
  "to_number 1000000000000000000000 = Num 1000000000000000000000"
  by code_simp+

lemma ex_id_one:
  "idParamSchema [(''id'', ''1'')] = Some (Num 1)"
  "id_parameter (parseInt (Some ''1'')) = Some 1"
  by (simp_all add: idParamSchema_def all_digits_examples digits_val_examples to_number_safe
        MAX_SAFE_INTEGER_def parseInt_examples id_parameter_def int4_def)

text \<open>
  The routes of the three operations below, whatever the case of the letters of the
  path.
\<close>

lemma lowercase_literals [simp]:
  "lowercase ''api'' = ''api''" "lowercase ''auth'' = ''auth''"
  "lowercase ''posts'' = ''posts''" "lowercase ''register'' = ''register''"
  "lowercase ''login'' = ''login''" "lowercase ''me'' = ''me''"
  "lowercase ''user'' = ''user''" "lowercase ''health'' = ''health''"
  "lowercase ''docs'' = ''docs''"
  by (simp_all add: lowercase_def lower_def)

lemma register_route:
  assumes "req_method req = POST"
    and "map lowercase (req_path req) = [''api'', ''auth'', ''register'']"
  shows "server rt cfg req now d =
           then_serve (validateBody (registerSchema rt) (req\<lparr>req_params := []\<rparr>))
             (register rt cfg) now d"
proof -
  from assms(2) obtain a b c where p: "req_path req = [a, b, c]"
    and l: "lowercase a = ''api''" "lowercase b = ''auth''" "lowercase c = ''register''"
    by (auto simp: map_eq_Cons_conv)
  from assms(1) p l show ?thesis
    by (simp add: server_def app_def routes_def authRoutes_def
          PostController_AuthController_def)
qed

lemma login_route:
  assumes "req_method req = POST"
    and "map lowercase (req_path req) = [''api'', ''auth'', ''login'']"
  shows "server rt cfg req now d =
           then_serve (validateBody (loginSchema rt) (req\<lparr>req_params := []\<rparr>))
             (login rt cfg) now d"
proof -
  from assms(2) obtain a b c where p: "req_path req = [a, b, c]"
    and l: "lowercase a = ''api''" "lowercase b = ''auth''" "lowercase c = ''login''"
    by (auto simp: map_eq_Cons_conv)
  from assms(1) p l show ?thesis
    by (simp add: server_def app_def routes_def authRoutes_def
          PostController_AuthController_def)
qed

lemma posts_route:
  assumes "req_method req = GET" and "map lowercase (req_path req) = [''api'', ''posts'']"
  shows "server rt cfg req now d =
           then_serve (validateQuery paginationSchema (req\<lparr>req_params := []\<rparr>))
             getAllPosts now d"
proof -
  from assms(2) obtain a b where p: "req_path req = [a, b]"
    and l: "lowercase a = ''api''" "lowercase b = ''posts''"
    by (auto simp: map_eq_Cons_conv)
  from assms(1) p l show ?thesis
    by (simp add: server_def app_def routes_def postRoutes_def
          PostController_AuthController_def)
qed

section \<open>The terminal error handler\<close>

text \<open>
  C7, as the code has it. An error without \<open>statusCode\<close> is answered with status
  500. The body carries the \<open>stack\<close> of the error exactly when \<open>NODE_ENV\<close> is
  \<open>development\<close>; in every other environment, not only in production, the body has no
  \<open>stack\<close> key.
\<close>

theorem errorHandler_status_and_stack:
  "(err_statusCode err = None \<longrightarrow> res_status (errorHandler cfg err) = 500)
   \<and> field ''stack'' (res_body (errorHandler cfg err))
       = (if NODE_ENV cfg = ''development'' then map_option JStr (err_stack err) else None)"
  by (simp add: errorHandler_def res_status_json_def field_def opt_field_def Let_def
        split: option.splits)

theorem errorHandler_status_and_stack_witness:
  "res_status (errorHandler (ex_config ''development'') ex_error) = 500
   \<and> field ''stack'' (res_body (errorHandler (ex_config ''development'') ex_error))
       = Some (JStr ''at f (a.ts:1:1)'')"
  using errorHandler_status_and_stack [of ex_error "ex_config ''development''"]
  by (simp add: ex_error_def ex_config_def)

text \<open>
  C7 as the spec states it fails: with \<open>NODE_ENV = test\<close> the environment is not
  production and yet the body has no stack trace.
\<close>

theorem stack_hidden_outside_production_counterexample:
  "\<not> (field ''stack'' (res_body (errorHandler (ex_config ''test'') ex_error)) \<noteq> None
        \<longleftrightarrow> NODE_ENV (ex_config ''test'') \<noteq> ''production'')"
  by (simp add: errorHandler_def res_status_json_def field_def opt_field_def ex_config_def
        ex_error_def)

section \<open>Registration\<close>

text \<open>
  What holds of \<open>register\<close> itself: when the e-mail is stored, it throws the error
  with status 400 before any insert and leaves the database as it was.
\<close>

lemma register_existing_email_throws:
  assumes "\<exists>u \<in> set (users d). user_email u = rd_email (req_body req)"
  shows "register rt cfg req now d =
           (Inl (Thrown (createError rt Register_existing
                   ''User with this email already exists'' 400)), d)"
proof -
  from assms obtain u where
    "find (\<lambda>u. user_email u = rd_email (req_body req)) (users d) = Some u"
    using find_Some_iff_ex [of "\<lambda>u. user_email u = rd_email (req_body req)" "users d"]
    by blast
  then show ?thesis
    by (simp add: register_def Let_def)
qed

text \<open>
  C3. The status 400 is not what the client gets. \<open>register\<close> throws the error that
  carries it, and the route registers the \<open>async\<close> controller as it is, so the
  rejection is lost and the request is left without an answer: on the example database,
  a registration with the e-mail of the first user sends no response. The users table is
  unchanged, as the claim says.
\<close>

theorem register_existing_email_unanswered:
  "server ex_runtime (ex_config ''production'') ex_register_taken 5000 ex_db =
     (Unanswered (Thrown (createError ex_runtime Register_existing
        ''User with this email already exists'' 400)), ex_db)
   \<and> sent_status (fst (server ex_runtime (ex_config ''production'') ex_register_taken
        5000 ex_db)) = None"
proof -
  have run: "server ex_runtime (ex_config ''production'') ex_register_taken 5000 ex_db =
     (Unanswered (Thrown (createError ex_runtime Register_existing
        ''User with this email already exists'' 400)), ex_db)"
    by (simp add: register_route ex_register_taken_def ex_request_def then_serve_def
        validateBody_def registerSchema_def z_string_def serve_def register_def Let_def
        ex_runtime_def ex_db_def ex_user_def)
  show ?thesis
    unfolding run by (simp add: sent_status_def)
qed

text \<open>
  C9. A successful registration is answered with status 201, and the \<open>user\<close> of the
  body has the keys \<open>id\<close>, \<open>email\<close>, \<open>firstName\<close>, \<open>lastName\<close>, \<open>createdAt\<close> and no
  other; there is no \<open>password\<close> key.
\<close>

theorem registration_response_user_fields:
  assumes "register rt cfg req now d = (Inr r, d')"
  shows "res_status r = 201
    \<and> (\<exists>u token.
          res_body r = JObj [(''success'', JBool True),
                             (''message'', JStr ''User registered successfully''),
                             (''data'', JObj [(''user'', u), (''token'', JStr token)])]
          \<and> u = JObj [(''id'', JNum (users_id_seq d)),
                      (''email'', JStr (rd_email (req_body req))),
                      (''firstName'', JStr (rd_firstName (req_body req))),
                      (''lastName'', JStr (rd_lastName (req_body req))),
                      (''createdAt'', JDate now)]
          \<and> keys u = [''id'', ''email'', ''firstName'', ''lastName'', ''createdAt'']
          \<and> field ''password'' u = None)"
  using assms
  by (auto simp: register_def Let_def res_status_json_def registered_user_json_def
        nullable_def keys_def field_def split: option.splits if_splits)

theorem registration_response_user_fields_witness:
  "\<exists>r d'. register ex_runtime (ex_config ''production'')
          (ex_request POST [''api'', ''auth'', ''register''] None [] []
             \<lparr>rd_email = ''c@x.io'', rd_password = ''secret1'',
              rd_firstName = ''Cy'', rd_lastName = ''Lee''\<rparr>) 5000 ex_db = (Inr r, d')
     \<and> res_status r = 201
     \<and> field ''data'' (res_body r) =
         Some (JObj [(''user'', JObj [(''id'', JNum 3), (''email'', JStr ''c@x.io''),
                      (''firstName'', JStr ''Cy''), (''lastName'', JStr ''Lee''),
                      (''createdAt'', JDate 5000)]),
                     (''token'', JStr ''t3'')])"
proof -
  obtain r d' where run: "register ex_runtime (ex_config ''production'')
          (ex_request POST [''api'', ''auth'', ''register''] None [] []
             \<lparr>rd_email = ''c@x.io'', rd_password = ''secret1'',
              rd_firstName = ''Cy'', rd_lastName = ''Lee''\<rparr>) 5000 ex_db = (Inr r, d')"
    by (simp add: register_def Let_def ex_db_def ex_user_def ex_request_def int4_def
          varchar_def ex_runtime_def)
  from registration_response_user_fields [OF run] run show ?thesis
    by (auto simp: field_def ex_request_def ex_db_def register_def Let_def ex_user_def
          ex_runtime_def res_status_json_def int4_def varchar_def)
qed

section \<open>Login\<close>

text \<open>
  C2. Neither failing login is answered with status 401. \<open>login\<close> throws the error
  with the generic message and status 401 in both cases, and the route registers the
  \<open>async\<close> controller as it is, so both rejections are lost: on the example database,
  a login with an e-mail that is not stored and a login with a wrong password both get
  no response, and the database is unchanged.
\<close>

theorem failing_logins_unanswered:
  "server ex_runtime (ex_config ''production'') ex_login_unknown 5000 ex_db =
     (Unanswered (Thrown (createError ex_runtime Login_no_user
        ''Invalid email or password'' 401)), ex_db)
   \<and> server ex_runtime (ex_config ''production'') ex_login_wrong 5000 ex_db =
     (Unanswered (Thrown (createError ex_runtime Login_bad_password
        ''Invalid email or password'' 401)), ex_db)
   \<and> sent_status (fst (server ex_runtime (ex_config ''production'') ex_login_unknown
        5000 ex_db)) = None
   \<and> sent_status (fst (server ex_runtime (ex_config ''production'') ex_login_wrong
        5000 ex_db)) = None"
proof -
  have run: "server ex_runtime (ex_config ''production'') ex_login_unknown 5000 ex_db =
     (Unanswered (Thrown (createError ex_runtime Login_no_user
        ''Invalid email or password'' 401)), ex_db)"
    "server ex_runtime (ex_config ''production'') ex_login_wrong 5000 ex_db =
     (Unanswered (Thrown (createError ex_runtime Login_bad_password
        ''Invalid email or password'' 401)), ex_db)"
    by (simp_all add: login_route ex_login_unknown_def ex_login_wrong_def ex_request_def
        then_serve_def validateBody_def loginSchema_def z_string_def serve_def login_def Let_def
        ex_runtime_def ex_db_def ex_user_def)
  show ?thesis
    unfolding run by (simp add: sent_status_def)
qed

section \<open>Pagination\<close>

lemma mset_insert_by: "mset (insert_by le x xs) = add_mset x (mset xs)"
  by (induction xs) auto

lemma mset_orderBy: "mset (orderBy le xs) = mset xs"
  by (induction xs) (auto simp: mset_insert_by)

lemma length_orderBy: "length (orderBy le xs) = length xs"
  using mset_orderBy [of le xs] by (metis size_mset)

lemma set_insert_by: "set (insert_by le x xs) = insert x (set xs)"
  using mset_insert_by [of le x xs] by (metis set_mset_add_mset_insert set_mset_mset)

lemma created_desc_total: "\<not> created_desc a b \<Longrightarrow> created_desc b a"
  by (auto simp: created_desc_def split: option.splits)

lemma created_desc_trans: "created_desc a b \<Longrightarrow> created_desc b c \<Longrightarrow> created_desc a c"
  by (auto simp: created_desc_def split: option.splits)

lemma sorted_insert_by:
  "sorted_wrt created_desc xs \<Longrightarrow> sorted_wrt created_desc (insert_by created_desc x xs)"
proof (induction xs)
  case Nil
  then show ?case by simp
next
  case (Cons y ys)
  show ?case
  proof (cases "created_desc x y")
    case True
    with Cons.prems show ?thesis
      by (auto intro: created_desc_trans)
  next
    case False
    with Cons show ?thesis
      by (auto simp: set_insert_by dest: created_desc_total)
  qed
qed

lemma sorted_orderBy: "sorted_wrt created_desc (orderBy created_desc xs)"
  by (induction xs) (auto simp: sorted_insert_by)

text \<open>
  C4, as the code has it. When \<open>page\<close> is \<open>p \<ge> 1\<close> and \<open>limit\<close> is \<open>L \<ge> 1\<close>, and \<open>p\<close>,
  \<open>L\<close> and \<open>(p - 1) * L\<close> are at most \<open>Number.MAX_SAFE_INTEGER\<close>, the rows answered are
  the posts in descending order of creation, without the first \<open>(p - 1) * L\<close> and cut
  after \<open>L\<close>; there are at most \<open>L\<close> of them, and \<open>hasMore\<close> is true exactly when there
  are \<open>L\<close>. With 15 posts and \<open>L = 10\<close>, page 1 has 10 rows and \<open>hasMore\<close> true, page 2
  has 5 rows and \<open>hasMore\<close> false.
\<close>

theorem getAllPosts_pagination:
  assumes page: "parseInt (map_of (req_query req) ''page'') = Num p" and "1 \<le> p"
    and limit: "parseInt (map_of (req_query req) ''limit'') = Num L" and "1 \<le> L"
    and safe: "p \<le> MAX_SAFE_INTEGER" "L \<le> MAX_SAFE_INTEGER"
      "(p - 1) * L \<le> MAX_SAFE_INTEGER"
  shows "\<exists>rows.
      rows = take (nat L) (drop (nat ((p - 1) * L)) (orderBy created_desc (posts d)))
    \<and> mset (orderBy created_desc (posts d)) = mset (posts d)
    \<and> sorted_wrt created_desc (orderBy created_desc (posts d))
    \<and> getAllPosts req now d =
        (Inr (res_json
           (JObj [(''success'', JBool True),
                  (''data'',
                   JObj [(''posts'', JArr (map (post_with_author_json (users d)) rows)),
                         (''pagination'',
                          JObj [(''page'', JNum p), (''limit'', JNum L),
                                (''hasMore'', JBool (int (length rows) = L))])])])), d)
    \<and> int (length rows) \<le> L
    \<and> (length (posts d) = 15 \<and> L = 10 \<and> p = 1
          \<longrightarrow> length rows = 10 \<and> int (length rows) = L)
    \<and> (length (posts d) = 15 \<and> L = 10 \<and> p = 2
          \<longrightarrow> length rows = 5 \<and> int (length rows) \<noteq> L)"
proof -
  let ?sorted = "orderBy created_desc (posts d)"
  let ?off = "(p - 1) * L"
  let ?rows = "take (nat L) (drop (nat ?off) ?sorted)"
  from assms have off: "0 \<le> ?off" by (intro mult_nonneg_nonneg) simp_all
  from \<open>1 \<le> p\<close> have dp: "or_default (Num p) 1 = Num p"
    by (auto simp: or_default_def)
  from \<open>1 \<le> L\<close> have dl: "or_default (Num L) 10 = Num L"
    by (auto simp: or_default_def)
  from \<open>1 \<le> p\<close> safe(1) have m1: "minus_one (Num p) = Num (p - 1)"
    by (simp add: minus_one_def to_number_safe)
  from off safe(3) have tm: "times (Num (p - 1)) (Num L) = Num ?off"
    by (simp add: times_def to_number_safe)
  from \<open>1 \<le> L\<close> safe(2) have lc: "limit_clause (Num L) = Some (Some L)"
    by (simp add: limit_clause_def int8_def MAX_SAFE_INTEGER_def)
  have lo: "limit_offset (Num L) (Num ?off) ?sorted = Some ?rows"
  proof (cases "?off = 0")
    case True
    have "offset_clause (Num ?off) = Some None"
      unfolding True by (simp add: offset_clause_def)
    moreover have "drop (nat ?off) ?sorted = ?sorted"
      unfolding True by simp
    ultimately show ?thesis
      using lc by (simp add: limit_offset_def sql_limit_take)
  next
    case False
    with off safe(3) have "offset_clause (Num ?off) = Some (Some ?off)"
      by (simp add: offset_clause_def int8_def MAX_SAFE_INTEGER_def)
    with lc show ?thesis
      by (simp add: limit_offset_def sql_limit_take sql_offset_drop)
  qed
  have run: "getAllPosts req now d =
        (Inr (res_json
           (JObj [(''success'', JBool True),
                  (''data'',
                   JObj [(''posts'', JArr (map (post_with_author_json (users d)) ?rows)),
                         (''pagination'',
                          JObj [(''page'', JNum p), (''limit'', JNum L),
                                (''hasMore'', JBool (int (length ?rows) = L))])])])), d)"
    unfolding getAllPosts_def Let_def page limit dp dl m1 tm lo pagination_json_def
      number_json_def
    by (simp only: option.case number.case number.inject
          eq_commute [of L "int (length ?rows)"])
  have le: "int (length ?rows) \<le> L" using \<open>1 \<le> L\<close> by simp
  have p1: "length (posts d) = 15 \<and> L = 10 \<and> p = 1 \<longrightarrow> length ?rows = 10 \<and> int (length ?rows) = L"
    by (simp add: length_orderBy)
  have p2: "length (posts d) = 15 \<and> L = 10 \<and> p = 2 \<longrightarrow> length ?rows = 5 \<and> int (length ?rows) \<noteq> L"
    by (simp add: length_orderBy)
  from run le p1 p2 show ?thesis
    using mset_orderBy [of created_desc "posts d"] sorted_orderBy [of "posts d"] by blast
qed

theorem getAllPosts_pagination_witness:
  "\<exists>rows.
      getAllPosts ex_page2 5000 ex_db15 =
        (Inr (res_json
           (JObj [(''success'', JBool True),
                  (''data'',
                   JObj [(''posts'', JArr (map (post_with_author_json (users ex_db15)) rows)),
                         (''pagination'',
                          JObj [(''page'', JNum 2), (''limit'', JNum 10),
                                (''hasMore'', JBool False)])])])), ex_db15)
    \<and> length rows = 5"
proof -
  have page: "parseInt (map_of (req_query ex_page2) ''page'') = Num 2"
    by (simp add: ex_page2_def ex_request_def parseInt_examples)
  have limit: "parseInt (map_of (req_query ex_page2) ''limit'') = Num 10"
    by (simp add: ex_page2_def ex_request_def parseInt_examples)
  have n: "length (posts ex_db15) = 15"
    by (simp add: ex_db15_def)
  have safe: "(2::int) \<le> MAX_SAFE_INTEGER" "(10::int) \<le> MAX_SAFE_INTEGER"
    "(2 - 1) * (10::int) \<le> MAX_SAFE_INTEGER"
    by (simp_all add: MAX_SAFE_INTEGER_def)
  from getAllPosts_pagination [OF page _ limit _ safe, of ex_db15 5000] n
  show ?thesis by auto
qed

text \<open>
  C4 as the spec states it fails for a large page: \<open>page=99999999999999999999\<close> and
  \<open>limit=10\<close> pass the schema, \<open>parseInt\<close> gives \<open>1e20\<close>, the offset \<open>1e21\<close> is no
  64-bit integer, the database rejects the query, and nothing is answered.
\<close>

theorem huge_page_is_rejected_counterexample:
  "server ex_runtime (ex_config ''production'') ex_page_huge 5000 ex_db15
     = (Unanswered DatabaseError, ex_db15)"
proof -
  have q: "paginationSchema (req_query (ex_page_huge\<lparr>req_params := []\<rparr>))
             = Some (Num 100000000000000000000, Num 10)"
    by (simp add: ex_page_huge_def ex_request_def paginationSchema_def z_digits_default_def
        all_digits_examples digits_val_examples to_number_huge to_number_safe
        MAX_SAFE_INTEGER_def)
  have page: "parseInt (Some ''99999999999999999999'') = Num 100000000000000000000"
    by (simp add: parseInt_digits all_digits_examples digits_val_examples to_number_huge)
  have off: "times (minus_one (Num 100000000000000000000)) (Num 10)
               = Num 1000000000000000000000"
    by (simp add: minus_one_def times_def to_number_huge)
  have "getAllPosts (ex_page_huge\<lparr>req_params := []\<rparr>) 5000 ex_db15 = (Inl DatabaseError, ex_db15)"
    by (simp add: getAllPosts_def Let_def ex_page_huge_def ex_request_def page
          parseInt_examples or_default_def off limit_offset_def limit_clause_def
          offset_clause_def int8_def)
  moreover have "server ex_runtime (ex_config ''production'') ex_page_huge 5000 ex_db15 =
      then_serve (validateQuery paginationSchema (ex_page_huge\<lparr>req_params := []\<rparr>))
        getAllPosts 5000 ex_db15"
    by (rule posts_route) (simp_all add: ex_page_huge_def ex_request_def)
  ultimately show ?thesis
    using q by (simp add: then_serve_def validateQuery_def serve_def)
qed

section \<open>Ownership of posts\<close>

text \<open>
  What holds of the controllers: for a post that exists and whose author is not the
  user of the token, \<open>updatePost\<close> and \<open>deletePost\<close> throw the error with status 403
  before any write and leave the database as it was; \<open>getPostById\<close> answers with the
  post, and reads neither the token nor the user.
\<close>

lemma non_owner_update_or_delete_throws:
  assumes post: "find (\<lambda>p. post_id p = n) (posts d) = Some p"
  shows
    "(authenticateToken rt cfg ureq d = Next ureq' \<and> req_user ureq' = Some B
        \<and> id_parameter (parseInt (map_of (req_params ureq) ''id'')) = Some n
        \<and> post_authorId p \<noteq> au_id B
      \<longrightarrow> then_serve (authenticateToken rt cfg ureq d) (updatePost rt) now d =
            (Unanswered (Thrown (createError rt UpdatePost_not_owner
               ''Not authorized to update this post'' 403)), d))
   \<and> (authenticateToken rt cfg dreq d = Next dreq' \<and> req_user dreq' = Some B
        \<and> id_parameter (parseInt (map_of (req_params dreq) ''id'')) = Some n
        \<and> post_authorId p \<noteq> au_id B
      \<longrightarrow> then_serve (authenticateToken rt cfg dreq d) (deletePost rt) now d =
            (Unanswered (Thrown (createError rt DeletePost_not_owner
               ''Not authorized to delete this post'' 403)), d))
   \<and> (id_parameter (parseInt (map_of (req_params greq) ''id'')) = Some n
      \<longrightarrow> serve (getPostById rt) greq now d =
            (Sent (res_json (JObj [(''success'', JBool True),
                             (''data'', JObj [(''post'', post_with_author_json (users d) p)])])),
             d))"
proof (intro conjI impI)
  assume a: "authenticateToken rt cfg ureq d = Next ureq' \<and> req_user ureq' = Some B
        \<and> id_parameter (parseInt (map_of (req_params ureq) ''id'')) = Some n
        \<and> post_authorId p \<noteq> au_id B"
  then have params: "req_params ureq' = req_params ureq"
    by (auto simp: authenticateToken_def split: option.splits if_splits)
  with a post have "updatePost rt ureq' now d =
      (Inl (Thrown (createError rt UpdatePost_not_owner
              ''Not authorized to update this post'' 403)), d)"
    by (simp add: updatePost_def Let_def)
  with a show "then_serve (authenticateToken rt cfg ureq d) (updatePost rt) now d =
            (Unanswered (Thrown (createError rt UpdatePost_not_owner
               ''Not authorized to update this post'' 403)), d)"
    by (simp add: then_serve_def serve_def)
next
  assume a: "authenticateToken rt cfg dreq d = Next dreq' \<and> req_user dreq' = Some B
        \<and> id_parameter (parseInt (map_of (req_params dreq) ''id'')) = Some n
        \<and> post_authorId p \<noteq> au_id B"
  then have params: "req_params dreq' = req_params dreq"
    by (auto simp: authenticateToken_def split: option.splits if_splits)
  with a post have "deletePost rt dreq' now d =
      (Inl (Thrown (createError rt DeletePost_not_owner
              ''Not authorized to delete this post'' 403)), d)"
    by (simp add: deletePost_def Let_def)
  with a show "then_serve (authenticateToken rt cfg dreq d) (deletePost rt) now d =
            (Unanswered (Thrown (createError rt DeletePost_not_owner
               ''Not authorized to delete this post'' 403)), d)"
    by (simp add: then_serve_def serve_def)
next
  assume "id_parameter (parseInt (map_of (req_params greq) ''id'')) = Some n"
  with post show "serve (getPostById rt) greq now d =
            (Sent (res_json (JObj [(''success'', JBool True),
                             (''data'', JObj [(''post'', post_with_author_json (users d) p)])])),
             d)"
    by (simp add: serve_def getPostById_def)
qed

text \<open>
  C1. The status 403 is not what the client gets. The routes register the \<open>async\<close>
  controllers as they are, so the error that \<open>updatePost\<close> and \<open>deletePost\<close> throw is
  lost and the request is left without an answer: on the example database, the second
  user's update and delete of the first user's post send no response. The post is
  neither modified nor deleted, and a request without a token reads it, as the claim
  says.
\<close>

theorem non_owner_update_and_delete_unanswered:
  "server ex_runtime (ex_config ''production'') ex_update_by_other 5000 ex_db =
     (Unanswered (Thrown (createError ex_runtime UpdatePost_not_owner
        ''Not authorized to update this post'' 403)), ex_db)
   \<and> server ex_runtime (ex_config ''production'') ex_delete_by_other 5000 ex_db =
     (Unanswered (Thrown (createError ex_runtime DeletePost_not_owner
        ''Not authorized to delete this post'' 403)), ex_db)
   \<and> sent_status (fst (server ex_runtime (ex_config ''production'') ex_update_by_other
        5000 ex_db)) = None
   \<and> sent_status (fst (server ex_runtime (ex_config ''production'') ex_delete_by_other
        5000 ex_db)) = None
   \<and> server ex_runtime (ex_config ''production'') ex_read 5000 ex_db =
     (Sent (res_json (JObj [(''success'', JBool True),
              (''data'', JObj [(''post'',
                 post_with_author_json (users ex_db) (ex_post 1 1 2000))])])),
      ex_db)"
proof -
  have tok: "bearer_token (Some ''Bearer t2'') = Some ''t2''"
    by (simp add: bearer_token_def)
  have update: "server ex_runtime (ex_config ''production'') ex_update_by_other 5000 ex_db =
     (Unanswered (Thrown (createError ex_runtime UpdatePost_not_owner
        ''Not authorized to update this post'' 403)), ex_db)"
    by (simp add: server_def app_def routes_def postRoutes_def then_serve_def and_then_def
          PostController_AuthController_def authenticateToken_def tok validateParams_def
          validateBody_def updatePostSchema_def z_string_optional_def z_boolean_optional_def
          ex_id_one serve_def updatePost_def Let_def ex_update_by_other_def ex_request_def
          ex_runtime_def ex_db_def ex_user_def ex_post_def int4_def)
  have delete: "server ex_runtime (ex_config ''production'') ex_delete_by_other 5000 ex_db =
     (Unanswered (Thrown (createError ex_runtime DeletePost_not_owner
        ''Not authorized to delete this post'' 403)), ex_db)"
    by (simp add: server_def app_def routes_def postRoutes_def then_serve_def and_then_def
          PostController_AuthController_def authenticateToken_def tok validateParams_def
          ex_id_one serve_def deletePost_def Let_def ex_delete_by_other_def ex_request_def
          ex_runtime_def ex_db_def ex_user_def ex_post_def int4_def)
  have read: "server ex_runtime (ex_config ''production'') ex_read 5000 ex_db =
     (Sent (res_json (JObj [(''success'', JBool True),
              (''data'', JObj [(''post'',
                 post_with_author_json (users ex_db) (ex_post 1 1 2000))])])),
      ex_db)"
    by (simp add: server_def app_def routes_def postRoutes_def then_serve_def
          PostController_AuthController_def validateParams_def
          ex_id_one serve_def getPostById_def ex_read_def ex_request_def
          ex_db_def ex_post_def)
  show ?thesis
    unfolding update delete read by (simp add: sent_status_def)
qed

section \<open>Routes\<close>

text \<open>
  The route \<open>GET /posts/user/:userId\<close> validates its parameters with \<open>idParamSchema\<close>,
  which asks for the key \<open>id\<close>; the parameters have the key \<open>userId\<close> only, so the
  validation fails whatever the value.
\<close>

lemma user_posts_route_rejected:
  assumes "req_method req = GET"
    and "req_path req = [a, b, c, userId]"
    and "lowercase a = ''api''" "lowercase b = ''posts''" "lowercase c = ''user''"
  shows "app rt cfg C req now d = (Sent validation_failed, d)"
  using assms
  by (simp add: app_def routes_def postRoutes_def then_serve_def and_then_def
        validateParams_def idParamSchema_def)

text \<open>
  C5. \<open>GET /api/posts/user/1?page=1&limit=10\<close> is answered with the validation error,
  status 400, and not with status 200: \<open>idParamSchema\<close> rejects the parameters of the
  route. The controller, were it reached with these parameters, would answer 200.
\<close>

theorem getPostsByUserId_route_answers_400:
  "server ex_runtime (ex_config ''production'')
     (ex_request GET [''api'', ''posts'', ''user'', ''1''] None []
        [(''page'', ''1''), (''limit'', ''10'')] (JObj [])) 5000 ex_db
     = (Sent validation_failed, ex_db)
   \<and> res_status validation_failed = 400
   \<and> idParamSchema [(''userId'', ''1'')] = None
   \<and> sent_status (fst (serve getPostsByUserId
        (ex_request GET [''api'', ''posts'', ''user'', ''1''] None [(''userId'', ''1'')]
           [(''page'', ''1''), (''limit'', ''10'')] (JObj [])) 5000 ex_db)) = Some 200"
proof (intro conjI)
  show "server ex_runtime (ex_config ''production'')
     (ex_request GET [''api'', ''posts'', ''user'', ''1''] None []
        [(''page'', ''1''), (''limit'', ''10'')] (JObj [])) 5000 ex_db
     = (Sent validation_failed, ex_db)"
    unfolding server_def
    by (rule user_posts_route_rejected
          [where a = "''api''" and b = "''posts''" and c = "''user''" and userId = "''1''"])
       (simp_all add: ex_request_def)
  show "res_status validation_failed = 400"
    by (simp add: validation_failed_def res_status_json_def)
  show "idParamSchema [(''userId'', ''1'')] = None"
    by (simp add: idParamSchema_def)
  show "sent_status (fst (serve getPostsByUserId
        (ex_request GET [''api'', ''posts'', ''user'', ''1''] None [(''userId'', ''1'')]
           [(''page'', ''1''), (''limit'', ''10'')] (JObj [])) 5000 ex_db)) = Some 200"
    by (simp add: serve_def getPostsByUserId_def ex_request_def parseInt_examples
          or_default_def minus_one_def times_def to_number_safe MAX_SAFE_INTEGER_def
          id_parameter_def int4_def limit_offset_def limit_clause_def offset_clause_def
          int8_def sent_status_def res_json_def Let_def)
qed



section \<open>The users table\<close>

lemma then_serve_users:
  assumes "\<And>req. users (snd (h req now d)) = users d"
  shows "users (snd (then_serve st h now d)) = users d"
proof (cases st)
  case (Respond r)
  then show ?thesis by (simp add: then_serve_def)
next
  case (Next req)
  with assms [of req] show ?thesis
    by (cases "h req now d") (auto simp: then_serve_def serve_def split: sum.splits)
qed

lemma login_users: "users (snd (login rt cfg req now d)) = users d"
  by (simp add: login_def Let_def split: option.splits)

lemma getProfile_users: "users (snd (getProfile req now d)) = users d"
  by (simp add: getProfile_def)

lemma getAllPosts_users: "users (snd (getAllPosts req now d)) = users d"
  by (simp add: getAllPosts_def Let_def split: option.splits)

lemma getPostById_users: "users (snd (getPostById rt req now d)) = users d"
  by (simp add: getPostById_def split: option.splits)

lemma getPostsByUserId_users: "users (snd (getPostsByUserId req now d)) = users d"
  by (simp add: getPostsByUserId_def Let_def split: option.splits)

lemma createPost_users: "users (snd (createPost req now d)) = users d"
  by (simp add: createPost_def Let_def split: option.splits)

lemma updatePost_users: "users (snd (updatePost rt req now d)) = users d"
  by (simp add: updatePost_def Let_def split: option.splits)

lemma deletePost_users: "users (snd (deletePost rt req now d)) = users d"
  by (simp add: deletePost_def Let_def split: option.splits)

lemma register_users:
  "users (snd (register rt cfg req now d)) = users d
   \<or> (\<exists>u. users (snd (register rt cfg req now d)) = users d @ [u] \<and> u \<notin> set (users d))"
  by (auto simp: register_def Let_def list_ex_iff split: option.splits)

lemma then_serve_register_users:
  "users (snd (then_serve st (register rt cfg) now d)) = users d
   \<or> (\<exists>u. users (snd (then_serve st (register rt cfg) now d)) = users d @ [u]
           \<and> u \<notin> set (users d))"
proof (cases st)
  case (Respond r)
  then show ?thesis by (simp add: then_serve_def)
next
  case (Next req)
  with register_users [of rt cfg req now d] show ?thesis
    by (cases "register rt cfg req now d") (auto simp: then_serve_def serve_def split: sum.splits)
qed

lemma postRoutes_users:
  "postRoutes rt cfg (PostController_AuthController rt cfg) path req now d = Some out
   \<Longrightarrow> users (snd out) = users d"
  by (auto simp: postRoutes_def PostController_AuthController_def then_serve_users
        getAllPosts_users getPostById_users getPostsByUserId_users createPost_users
        updatePost_users deletePost_users
        split: http_method.splits list.splits if_splits)

lemma authRoutes_users:
  "authRoutes rt cfg (PostController_AuthController rt cfg) path req now d = Some out
   \<Longrightarrow> users (snd out) = users d
       \<or> (req_method req = POST \<and> map lowercase path = [''register'']
           \<and> (\<exists>u. users (snd out) = users d @ [u] \<and> u \<notin> set (users d)))"
  using then_serve_register_users [of "validateBody (registerSchema rt) (req\<lparr>req_params := []\<rparr>)" rt cfg now d]
  by (auto simp: authRoutes_def PostController_AuthController_def then_serve_users
        login_users getProfile_users split: if_splits)

lemma routes_users:
  "routes rt cfg (PostController_AuthController rt cfg) path req now d = Some out
   \<Longrightarrow> users (snd out) = users d
       \<or> (req_method req = POST \<and> map lowercase path = [''auth'', ''register'']
           \<and> (\<exists>u. users (snd out) = users d @ [u] \<and> u \<notin> set (users d)))"
  by (auto simp: routes_def split: if_splits list.splits dest: postRoutes_users authRoutes_users)

text \<open>
  C8. Whatever the request, the rows of the users table after it are the rows before
  it, or, for \<open>POST /api/auth/register\<close> only, the rows before it followed by one new
  row. No row is updated or deleted.
\<close>

theorem users_never_updated_or_deleted:
  assumes "server rt cfg req now d = (res, d')"
  shows "users d' = users d
       \<or> (req_method req = POST
           \<and> map lowercase (req_path req) = [''api'', ''auth'', ''register'']
           \<and> (\<exists>u. users d' = users d @ [u] \<and> u \<notin> set (users d)))"
proof (cases "map lowercase (take 2 (req_path req)) = [''api'', ''docs'']")
  case True
  with assms have "d' = d"
    by (simp add: server_def app_def)
  then show ?thesis by simp
next
  case nodocs: False
  show ?thesis
  proof (cases "map lowercase (take 1 (req_path req)) = [''api'']
                \<and> routes rt cfg (PostController_AuthController rt cfg)
                      (drop 1 (req_path req)) req now d \<noteq> None")
    case True
    then obtain out where out:
      "routes rt cfg (PostController_AuthController rt cfg) (drop 1 (req_path req)) req now d
         = Some out"
      by blast
    with True nodocs assms have "out = (res, d')"
      by (simp add: server_def app_def)
    moreover from True have
      "map lowercase (req_path req) = ''api'' # map lowercase (drop 1 (req_path req))"
      by (cases "req_path req") auto
    ultimately show ?thesis
      using routes_users [OF out] by auto
  next
    case False
    with nodocs assms have "d' = d"
      by (auto simp: server_def app_def split: if_splits option.splits)
    then show ?thesis by simp
  qed
qed

lemma ex_register_run:
  "server ex_runtime (ex_config ''production'') ex_register 5000 ex_db =
     (Sent (res_status_json 201
        (JObj [(''success'', JBool True),
               (''message'', JStr ''User registered successfully''),
               (''data'', JObj [(''user'', JObj [(''id'', JNum 3), (''email'', JStr ''c@x.io''),
                      (''firstName'', JStr ''Cy''), (''lastName'', JStr ''Lee''),
                      (''createdAt'', JDate 5000)]),
                     (''token'', JStr ''t3'')])])),
      ex_db\<lparr>users_id_seq := 4,
            users := users ex_db @
              [\<lparr>user_id = 3, user_email = ''c@x.io'', user_password = ''$2a$12$secret1'',
                user_firstName = ''Cy'', user_lastName = ''Lee'', user_isActive = Some True,
                user_createdAt = Some 5000, user_updatedAt = Some 5000\<rparr>]\<rparr>)"
  by (simp add: register_route ex_register_def ex_request_def then_serve_def validateBody_def
        registerSchema_def z_string_def serve_def register_def Let_def ex_runtime_def
        ex_config_def ex_db_def ex_user_def registered_user_json_def nullable_def
        int4_def varchar_def)

theorem users_never_updated_or_deleted_witness:
  "\<exists>res d' u.
      server ex_runtime (ex_config ''production'') ex_register 5000 ex_db = (Sent res, d')
    \<and> res_status res = 201
    \<and> users d' = users ex_db @ [u] \<and> u \<notin> set (users ex_db)"
proof -
  note run = ex_register_run
  from users_never_updated_or_deleted [OF run]
  have "\<exists>u. users ex_db @
              [\<lparr>user_id = 3, user_email = ''c@x.io'', user_password = ''$2a$12$secret1'',
                user_firstName = ''Cy'', user_lastName = ''Lee'', user_isActive = Some True,
                user_createdAt = Some 5000, user_updatedAt = Some 5000\<rparr>] = users ex_db @ [u]
            \<and> u \<notin> set (users ex_db)"
    by simp
  with run show ?thesis
    by (auto simp: res_status_json_def)
qed

section \<open>The \<open>isActive\<close> flag\<close>

lemma find_without_isActive:
  assumes "map without_isActive us1 = map without_isActive us2"
    and "\<And>u. P (without_isActive u) = P u"
  shows "rel_option (\<lambda>a b. without_isActive a = without_isActive b) (find P us1) (find P us2)"
  using assms(1)
proof (induction us1 arbitrary: us2)
  case Nil
  then show ?case by simp
next
  case (Cons a us1)
  then obtain b us2' where us2: "us2 = b # us2'" and ab: "without_isActive a = without_isActive b"
    and rest: "map without_isActive us1 = map without_isActive us2'"
    by (cases us2) auto
  from ab assms(2) [of a] assms(2) [of b] have "P a = P b" by simp
  with Cons.IH [OF rest] ab us2 show ?case by simp
qed

lemma list_ex_without_isActive:
  assumes "map without_isActive us1 = map without_isActive us2"
    and "\<And>u. P (without_isActive u) = P u"
  shows "list_ex P us1 = list_ex P us2"
proof -
  have "list_ex P us = list_ex P (map without_isActive us)" for us
    by (induction us) (simp_all add: assms(2))
  with assms(1) show ?thesis by metis
qed

lemma alike_same: "same_but_isActive d1 d2 \<Longrightarrow> alike (r, d1) (r, d2)"
  by (simp add: alike_def)

lemma same_users:
  "same_but_isActive d1 d2 \<Longrightarrow> map without_isActive (users d1) = map without_isActive (users d2)"
  by (simp add: same_but_isActive_def)

lemma find_by_id_same:
  assumes "same_but_isActive d1 d2"
  shows "rel_option (\<lambda>a b. without_isActive a = without_isActive b)
           (find (\<lambda>u. user_id u = k) (users d1)) (find (\<lambda>u. user_id u = k) (users d2))"
  by (rule find_without_isActive [OF same_users [OF assms]]) (simp add: without_isActive_def)

lemma find_by_email_same:
  assumes "same_but_isActive d1 d2"
  shows "rel_option (\<lambda>a b. without_isActive a = without_isActive b)
           (find (\<lambda>u. user_email u = e) (users d1)) (find (\<lambda>u. user_email u = e) (users d2))"
  by (rule find_without_isActive [OF same_users [OF assms]]) (simp add: without_isActive_def)

lemma without_isActive_eq_iff:
  "without_isActive a = without_isActive b \<longleftrightarrow>
     user_id a = user_id b \<and> user_email a = user_email b
     \<and> user_password a = user_password b \<and> user_firstName a = user_firstName b
     \<and> user_lastName a = user_lastName b \<and> user_createdAt a = user_createdAt b
     \<and> user_updatedAt a = user_updatedAt b"
  by (cases a; cases b) (auto simp: without_isActive_def)

lemma authenticateToken_same:
  assumes "same_but_isActive d1 d2"
  shows "authenticateToken rt cfg req d1 = authenticateToken rt cfg req d2"
proof (cases "bearer_token (req_authorization req)")
  case None
  then show ?thesis by (simp add: authenticateToken_def)
next
  case (Some token)
  show ?thesis
  proof (cases "jwt_verify rt token (JWT_SECRET cfg)")
    case None
    with Some show ?thesis by (simp add: authenticateToken_def)
  next
    case (Some userId)
    with \<open>bearer_token (req_authorization req) = Some token\<close>
      find_by_id_same [OF assms, of userId]
    show ?thesis
      by (auto elim!: option.rel_cases simp: authenticateToken_def without_isActive_eq_iff)
  qed
qed

lemma author_same:
  assumes "same_but_isActive d1 d2"
  shows "post_with_author_json (users d1) p = post_with_author_json (users d2) p"
  using find_by_id_same [OF assms, of "post_authorId p"]
  by (auto elim!: option.rel_cases simp: post_with_author_json_def nullable_def author_json_def
        without_isActive_eq_iff)

lemma same_posts: "same_but_isActive d1 d2 \<Longrightarrow> posts d1 = posts d2"
  by (simp add: same_but_isActive_def)

lemma author_fun_same:
  "same_but_isActive d1 d2 \<Longrightarrow> post_with_author_json (users d1) = post_with_author_json (users d2)"
  by (rule ext) (rule author_same)

lemma getProfile_same:
  "same_but_isActive d1 d2 \<Longrightarrow> same_outcome (getProfile req now d1) (getProfile req now d2)"
  by (simp add: same_outcome_def getProfile_def)

lemma getAllPosts_same:
  assumes "same_but_isActive d1 d2"
  shows "same_outcome (getAllPosts req now d1) (getAllPosts req now d2)"
proof -
  note p = same_posts [OF assms] and a = author_fun_same [OF assms]
  show ?thesis
    unfolding same_outcome_def getAllPosts_def Let_def p a
    using assms by (simp split: option.splits)
qed

lemma getPostById_same:
  assumes "same_but_isActive d1 d2"
  shows "same_outcome (getPostById rt req now d1) (getPostById rt req now d2)"
proof -
  note p = same_posts [OF assms] and a = author_fun_same [OF assms]
  show ?thesis
    unfolding same_outcome_def getPostById_def p a
    using assms by (simp split: option.splits)
qed

lemma getPostsByUserId_same:
  assumes "same_but_isActive d1 d2"
  shows "same_outcome (getPostsByUserId req now d1) (getPostsByUserId req now d2)"
proof -
  note p = same_posts [OF assms]
  show ?thesis
    unfolding same_outcome_def getPostsByUserId_def Let_def p
    using assms by (simp split: option.splits)
qed

lemma same_posts_update:
  "same_but_isActive d1 d2 \<Longrightarrow> same_but_isActive (d1\<lparr>posts := ps\<rparr>) (d2\<lparr>posts := ps\<rparr>)"
  by (simp add: same_but_isActive_def)

lemma updatePost_same:
  assumes "same_but_isActive d1 d2"
  shows "same_outcome (updatePost rt req now d1) (updatePost rt req now d2)"
proof -
  note p = same_posts [OF assms]
  show ?thesis
    unfolding same_outcome_def updatePost_def Let_def p
    using assms by (simp add: same_posts_update split: option.splits)
qed

lemma deletePost_same:
  assumes "same_but_isActive d1 d2"
  shows "same_outcome (deletePost rt req now d1) (deletePost rt req now d2)"
proof -
  note p = same_posts [OF assms]
  show ?thesis
    unfolding same_outcome_def deletePost_def Let_def p
    using assms by (simp add: same_posts_update split: option.splits)
qed

lemma list_ex_id_same:
  assumes "same_but_isActive d1 d2"
  shows "list_ex (\<lambda>u. user_id u = k) (users d1) = list_ex (\<lambda>u. user_id u = k) (users d2)"
  by (rule list_ex_without_isActive [OF same_users [OF assms]]) (simp add: without_isActive_def)

lemma same_posts_insert:
  "same_but_isActive d1 d2 \<Longrightarrow>
     same_but_isActive (d1\<lparr>posts_id_seq := s\<rparr>) (d2\<lparr>posts_id_seq := s\<rparr>)
     \<and> same_but_isActive (d1\<lparr>posts_id_seq := s, posts := ps\<rparr>)
                          (d2\<lparr>posts_id_seq := s, posts := ps\<rparr>)"
  by (simp add: same_but_isActive_def)

lemma same_users_insert:
  "same_but_isActive d1 d2 \<Longrightarrow>
     same_but_isActive (d1\<lparr>users_id_seq := s\<rparr>) (d2\<lparr>users_id_seq := s\<rparr>)
     \<and> same_but_isActive (d1\<lparr>users_id_seq := s, users := users d1 @ [row]\<rparr>)
                          (d2\<lparr>users_id_seq := s, users := users d2 @ [row]\<rparr>)"
  by (simp add: same_but_isActive_def)

lemma createPost_same:
  assumes "same_but_isActive d1 d2"
  shows "same_outcome (createPost req now d1) (createPost req now d2)"
proof -
  from assms have p: "posts d1 = posts d2" and q: "posts_id_seq d1 = posts_id_seq d2"
    by (simp_all add: same_but_isActive_def)
  note e = list_ex_id_same [OF assms]
  show ?thesis
    unfolding same_outcome_def createPost_def Let_def p q e
    using assms by (simp add: same_posts_insert split: option.splits)
qed

lemma register_same:
  assumes "same_but_isActive d1 d2"
  shows "same_outcome (register rt cfg req now d1) (register rt cfg req now d2)"
proof -
  from assms have q: "users_id_seq d1 = users_id_seq d2"
    by (simp add: same_but_isActive_def)
  note e = list_ex_id_same [OF assms]
  from find_by_email_same [OF assms, of "rd_email (req_body req)"]
  show ?thesis
  proof (cases rule: option.rel_cases)
    case None
    then show ?thesis
      unfolding same_outcome_def register_def Let_def q e
      using assms by (simp add: same_users_insert)
  next
    case (Some a b)
    then show ?thesis
      unfolding same_outcome_def register_def Let_def
      using assms by simp
  qed
qed

lemma userWithoutPassword_redacted:
  "without_isActive a = without_isActive b \<Longrightarrow>
     redact_isActive (userWithoutPassword a) = redact_isActive (userWithoutPassword b)"
  by (simp add: without_isActive_eq_iff userWithoutPassword_def nullable_def
        split: option.splits)

lemma login_alike:
  assumes "same_but_isActive d1 d2"
  shows "identical (serve (login rt cfg) req now d1) (serve (login rt cfg) req now d2)
       \<or> (alike (serve (login rt cfg) req now d1) (serve (login rt cfg) req now d2)
          \<and> sent_status (fst (serve (login rt cfg) req now d1)) = Some 200)"
proof -
  from find_by_email_same [OF assms, of "ld_email (req_body req)"]
  show ?thesis
  proof (cases rule: option.rel_cases)
    case None
    then show ?thesis
      using assms by (simp add: identical_def serve_def login_def Let_def)
  next
    case (Some a b)
    then have pw: "user_password a = user_password b" and uid: "user_id a = user_id b"
      by (simp_all add: without_isActive_eq_iff)
    from Some userWithoutPassword_redacted [of a b] assms show ?thesis
      by (simp add: identical_def alike_def serve_def login_def Let_def pw uid res_json_def
            redact_reply_def sent_status_def)
  qed
qed

lemma serve_identical:
  assumes "same_outcome (h req now d1) (h req now d2)"
  shows "identical (serve h req now d1) (serve h req now d2)"
  using assms
  by (cases "h req now d1"; cases "h req now d2")
     (auto simp: same_outcome_def identical_def serve_def split: sum.splits)

lemma then_serve_identical:
  assumes "same_but_isActive d1 d2"
    and "\<And>req. same_outcome (h req now d1) (h req now d2)"
  shows "identical (then_serve st h now d1) (then_serve st h now d2)"
proof (cases st)
  case (Respond r)
  with assms(1) show ?thesis by (simp add: then_serve_def identical_def)
next
  case (Next req)
  with serve_identical [of h req now d1 d2] assms(2) [of req] show ?thesis
    by (simp add: then_serve_def)
qed

lemma handlers_identical:
  assumes "same_but_isActive d1 d2"
  shows "identical (then_serve st1 getAllPosts now d1) (then_serve st1 getAllPosts now d2)"
    and "identical (then_serve st2 (getPostById rt) now d1)
                   (then_serve st2 (getPostById rt) now d2)"
    and "identical (then_serve st3 getPostsByUserId now d1)
                   (then_serve st3 getPostsByUserId now d2)"
    and "identical (then_serve st4 createPost now d1) (then_serve st4 createPost now d2)"
    and "identical (then_serve st5 (updatePost rt) now d1)
                   (then_serve st5 (updatePost rt) now d2)"
    and "identical (then_serve st6 (deletePost rt) now d1)
                   (then_serve st6 (deletePost rt) now d2)"
    and "identical (then_serve st7 (register rt cfg) now d1)
                   (then_serve st7 (register rt cfg) now d2)"
    and "identical (then_serve st8 getProfile now d1)
                   (then_serve st8 getProfile now d2)"
  by (rule then_serve_identical [OF assms],
      rule getAllPosts_same getPostById_same getPostsByUserId_same createPost_same
        updatePost_same deletePost_same register_same getProfile_same, rule assms)+

lemma postRoutes_identical:
  assumes "same_but_isActive d1 d2"
  shows "rel_option identical
           (postRoutes rt cfg (PostController_AuthController rt cfg) path req now d1)
           (postRoutes rt cfg (PostController_AuthController rt cfg) path req now d2)"
  unfolding postRoutes_def PostController_AuthController_def authenticateToken_same [OF assms]
  by (simp add: handlers_identical [OF assms] split: http_method.splits list.splits)

lemma authRoutes_alike:
  assumes "same_but_isActive d1 d2"
  shows "rel_option (\<lambda>o1 o2. identical o1 o2
                      \<or> (alike o1 o2 \<and> req_method req = POST
                         \<and> map lowercase path = [''login'']
                         \<and> sent_status (fst o1) = Some 200))
           (authRoutes rt cfg (PostController_AuthController rt cfg) path req now d1)
           (authRoutes rt cfg (PostController_AuthController rt cfg) path req now d2)"
proof -
  have login: "identical (then_serve st (login rt cfg) now d1)
                 (then_serve st (login rt cfg) now d2)
       \<or> (alike (then_serve st (login rt cfg) now d1) (then_serve st (login rt cfg) now d2)
          \<and> sent_status (fst (then_serve st (login rt cfg) now d1)) = Some 200)" for st
  proof (cases st)
    case (Respond r)
    with assms show ?thesis by (simp add: then_serve_def identical_def)
  next
    case (Next req')
    with login_alike [OF assms, of rt cfg req' now] show ?thesis
      by (simp add: then_serve_def)
  qed
  show ?thesis
    unfolding authRoutes_def PostController_AuthController_def authenticateToken_same [OF assms]
    using login
    by (simp add: handlers_identical [OF assms])
qed

lemma identical_alike: "identical o1 o2 \<Longrightarrow> alike o1 o2"
  by (simp add: identical_def alike_def)

lemma routes_alike:
  assumes "same_but_isActive d1 d2"
  shows "rel_option (\<lambda>o1 o2. identical o1 o2
                      \<or> (alike o1 o2 \<and> req_method req = POST
                         \<and> map lowercase path = [''auth'', ''login'']
                         \<and> sent_status (fst o1) = Some 200))
           (routes rt cfg (PostController_AuthController rt cfg) path req now d1)
           (routes rt cfg (PostController_AuthController rt cfg) path req now d2)"
proof (cases "req_method req = GET \<and> map lowercase path = [''health'']")
  case True
  with assms show ?thesis by (simp add: routes_def identical_def)
next
  case False
  show ?thesis
  proof (cases path)
    case Nil
    with False show ?thesis by (simp add: routes_def)
  next
    case (Cons seg rest)
    consider "lowercase seg = ''auth''" | "lowercase seg \<noteq> ''auth''" "lowercase seg = ''posts''"
      | "lowercase seg \<noteq> ''auth''" "lowercase seg \<noteq> ''posts''" by blast
    then show ?thesis
    proof cases
      case 1
      with False Cons authRoutes_alike [OF assms, of req rest rt cfg now] show ?thesis
        by (simp add: routes_def)
    next
      case 2
      from postRoutes_identical [OF assms, of rt cfg rest req now]
      have "rel_option (\<lambda>o1 o2. identical o1 o2
                      \<or> (alike o1 o2 \<and> req_method req = POST
                         \<and> map lowercase path = [''auth'', ''login'']
                         \<and> sent_status (fst o1) = Some 200))
           (postRoutes rt cfg (PostController_AuthController rt cfg) rest req now d1)
           (postRoutes rt cfg (PostController_AuthController rt cfg) rest req now d2)"
        by (rule option.rel_mono_strong) simp
      with 2 False Cons show ?thesis
        by (simp add: routes_def)
    next
      case 3
      with False Cons show ?thesis by (auto simp: routes_def)
    qed
  qed
qed

lemma server_docs:
  "map lowercase (take 2 (req_path req)) = [''api'', ''docs''] \<Longrightarrow>
   server rt cfg req now d = (Sent swaggerUi, d)"
  by (simp add: server_def app_def)

lemma server_routes:
  "map lowercase (take 2 (req_path req)) \<noteq> [''api'', ''docs''] \<Longrightarrow>
   map lowercase (take 1 (req_path req)) = [''api''] \<Longrightarrow>
   routes rt cfg (PostController_AuthController rt cfg) (drop 1 (req_path req)) req now d
     = Some out \<Longrightarrow>
   server rt cfg req now d = out"
  by (simp add: server_def app_def)

lemma server_fallthrough:
  "map lowercase (take 2 (req_path req)) \<noteq> [''api'', ''docs''] \<Longrightarrow>
   map lowercase (take 1 (req_path req)) = [''api''] \<longrightarrow>
     routes rt cfg (PostController_AuthController rt cfg) (drop 1 (req_path req)) req now d
       = None \<Longrightarrow>
   server rt cfg req now d =
     (Sent (if req_method req = GET \<and> req_path req = [] then root
            else errorHandler cfg (notFound rt req)), d)"
  by (auto simp: server_def app_def)

lemma api_path:
  "map lowercase (take 1 (req_path req)) = [''api''] \<Longrightarrow>
   map lowercase (drop 1 (req_path req)) = rest \<Longrightarrow>
   map lowercase (req_path req) = ''api'' # rest"
  by (cases "req_path req") auto

lemma server_alike:
  assumes "same_but_isActive d1 d2"
  shows "alike (server rt cfg req now d1) (server rt cfg req now d2)
     \<and> (fst (server rt cfg req now d1) \<noteq> fst (server rt cfg req now d2) \<longrightarrow>
          req_method req = POST \<and> map lowercase (req_path req) = [''api'', ''auth'', ''login'']
          \<and> sent_status (fst (server rt cfg req now d1)) = Some 200)"
proof (cases "map lowercase (take 2 (req_path req)) = [''api'', ''docs'']")
  case True
  show ?thesis
    unfolding server_docs [OF True] using assms by (simp add: alike_def)
next
  case nodocs: False
  show ?thesis
  proof (cases "map lowercase (take 1 (req_path req)) = [''api'']")
    case api: True
    from routes_alike [OF assms, of req "drop 1 (req_path req)" rt cfg now]
    show ?thesis
    proof (cases rule: option.rel_cases)
      case None
      then show ?thesis
        unfolding server_fallthrough [OF nodocs, of rt cfg now d1, OF impI, OF None(1)]
          server_fallthrough [OF nodocs, of rt cfg now d2, OF impI, OF None(2)]
        using assms by (simp add: alike_def)
    next
      case (Some o1 o2)
      note s1 = server_routes [OF nodocs api Some(1)]
        and s2 = server_routes [OF nodocs api Some(2)]
      from Some(3) api_path [OF api, of "[''auth'', ''login'']"]
      have "identical o1 o2
            \<or> (alike o1 o2 \<and> req_method req = POST
               \<and> map lowercase (req_path req) = [''api'', ''auth'', ''login'']
               \<and> sent_status (fst o1) = Some 200)"
        by auto
      then show ?thesis
        unfolding s1 s2 by (auto simp: identical_def alike_def)
    qed
  next
    case False
    then have none: "map lowercase (take 1 (req_path req)) = [''api''] \<longrightarrow>
       routes rt cfg (PostController_AuthController rt cfg) (drop 1 (req_path req)) req now d
         = None" for d
      by simp
    show ?thesis
      unfolding server_fallthrough [OF nodocs none]
      using assms by (simp add: alike_def)
  qed
qed

lemma redact_reply_status: "redact_reply o1 = redact_reply o2 \<Longrightarrow> sent_status o1 = sent_status o2"
proof (cases o1; cases o2)
  fix r1 r2
  assume eq: "redact_reply o1 = redact_reply o2" and o: "o1 = Sent r1" "o2 = Sent r2"
  then have "r1\<lparr>res_body := redact_isActive (res_body r1)\<rparr>
             = r2\<lparr>res_body := redact_isActive (res_body r2)\<rparr>"
    by (simp add: redact_reply_def)
  then have "res_status (r1\<lparr>res_body := redact_isActive (res_body r1)\<rparr>)
             = res_status (r2\<lparr>res_body := redact_isActive (res_body r2)\<rparr>)"
    by (rule arg_cong)
  with o show "sent_status o1 = sent_status o2"
    by (simp add: sent_status_def)
qed (simp_all add: redact_reply_def sent_status_def)

text \<open>
  C10, as the code has it. No operation consults \<open>isActive\<close>, and only the body of a
  successful login shows it. For two database states that differ only in \<open>isActive\<close>
  values, every request gets the same status (or no answer in both) and the same body
  up to the values under the key \<open>isActive\<close>, and leaves states that again differ only
  in \<open>isActive\<close> values; the two replies are equal unless the request is a login
  answered with status 200. So a deactivated user logs in and passes
  \<open>authenticateToken\<close> as an active one does.
\<close>

theorem isActive_only_echoed_by_login:
  assumes "same_but_isActive d1 d2"
  shows "\<exists>o1 e1 o2 e2.
      server rt cfg req now d1 = (o1, e1) \<and> server rt cfg req now d2 = (o2, e2)
    \<and> sent_status o1 = sent_status o2
    \<and> redact_reply o1 = redact_reply o2
    \<and> same_but_isActive e1 e2
    \<and> (o1 \<noteq> o2 \<longrightarrow> req_method req = POST
                     \<and> map lowercase (req_path req) = [''api'', ''auth'', ''login'']
                     \<and> sent_status o1 = Some 200)"
proof -
  obtain o1 e1 where s1: "server rt cfg req now d1 = (o1, e1)"
    by (cases "server rt cfg req now d1")
  obtain o2 e2 where s2: "server rt cfg req now d2 = (o2, e2)"
    by (cases "server rt cfg req now d2")
  from server_alike [OF assms, of rt cfg req now]
  have redacted: "redact_reply o1 = redact_reply o2"
    and states: "same_but_isActive e1 e2"
    and login: "o1 \<noteq> o2 \<longrightarrow> req_method req = POST
                     \<and> map lowercase (req_path req) = [''api'', ''auth'', ''login'']
                     \<and> sent_status o1 = Some 200"
    unfolding s1 s2 alike_def fst_conv snd_conv by simp_all
  from redacted have status: "sent_status o1 = sent_status o2"
    by (rule redact_reply_status)
  show ?thesis
    by (intro exI conjI) (rule s1 s2 status redacted states login)+
qed

lemma ex_same: "same_but_isActive ex_db ex_db_deactivated"
  by (simp add: same_but_isActive_def ex_db_def ex_db_deactivated_def ex_user_def without_isActive_def)

text \<open>
  A deactivated user still logs in, and still creates a post with the token.
\<close>

lemma ex_login_deactivated_run:
  "server ex_runtime (ex_config ''production'') ex_login 5000 ex_db_deactivated =
     (Sent (res_json
        (JObj [(''success'', JBool True),
               (''message'', JStr ''Login successful''),
               (''data'', JObj [(''user'', JObj [(''id'', JNum 1), (''email'', JStr ''a@x.io''),
                      (''firstName'', JStr ''Ann''), (''lastName'', JStr ''Lee''),
                      (''isActive'', JBool False), (''createdAt'', JDate 1000),
                      (''updatedAt'', JDate 1000)]),
                     (''token'', JStr ''t1'')])])),
      ex_db_deactivated)"
  by (simp add: login_route ex_login_def ex_request_def then_serve_def validateBody_def
        loginSchema_def z_string_def serve_def login_def Let_def ex_runtime_def
        ex_config_def ex_db_deactivated_def ex_db_def ex_user_def userWithoutPassword_def
        nullable_def)

lemma ex_deactivated_creates_post:
  "sent_status (fst (server ex_runtime (ex_config ''production'')
      (ex_request POST [''api'', ''posts''] (Some ''Bearer t1'') [] []
         (JObj [(''title'', JStr ''Still here'')])) 5000 ex_db_deactivated)) = Some 201"
  by (simp add: server_def app_def routes_def postRoutes_def then_serve_def and_then_def
        PostController_AuthController_def authenticateToken_def bearer_token_def
        validateBody_def createPostSchema_def z_string_def z_string_optional_def
        z_boolean_optional_def serve_def createPost_def Let_def ex_request_def ex_runtime_def
        ex_config_def ex_db_deactivated_def ex_db_def ex_user_def ex_post_def
        res_status_json_def int4_def varchar_def sent_status_def)

theorem isActive_only_echoed_by_login_witness:
  "\<exists>o1 e1 o2 e2.
      server ex_runtime (ex_config ''production'') ex_login 5000 ex_db = (o1, e1)
    \<and> server ex_runtime (ex_config ''production'') ex_login 5000 ex_db_deactivated = (o2, e2)
    \<and> sent_status o1 = Some 200 \<and> sent_status o2 = Some 200
    \<and> redact_reply o1 = redact_reply o2
    \<and> same_but_isActive e1 e2"
proof -
  from isActive_only_echoed_by_login [OF ex_same, of ex_runtime "ex_config ''production''"
      ex_login 5000]
  obtain o1 e1 o2 e2 where
    "server ex_runtime (ex_config ''production'') ex_login 5000 ex_db = (o1, e1)"
    "server ex_runtime (ex_config ''production'') ex_login 5000 ex_db_deactivated = (o2, e2)"
    "sent_status o1 = sent_status o2"
    "redact_reply o1 = redact_reply o2"
    "same_but_isActive e1 e2"
    by blast
  moreover from this(2) have "sent_status o2 = Some 200"
    by (auto simp: ex_login_deactivated_run res_json_def sent_status_def)
  ultimately show ?thesis by auto
qed

text \<open>
  C10 as the spec states it fails: the login body is
  \<open>userWithoutPassword\<close>, the whole row but the password, and so carries \<open>isActive\<close>.
  The same login against two states that differ only in the \<open>isActive\<close> value of the
  user gets two different responses.
\<close>

theorem login_echoes_isActive_counterexample:
  "same_but_isActive ex_db ex_db_deactivated
   \<and> fst (server ex_runtime (ex_config ''production'') ex_login 5000 ex_db)
     \<noteq> fst (server ex_runtime (ex_config ''production'') ex_login 5000 ex_db_deactivated)"
proof
  show "same_but_isActive ex_db ex_db_deactivated"
    by (rule ex_same)
  show "fst (server ex_runtime (ex_config ''production'') ex_login 5000 ex_db)
     \<noteq> fst (server ex_runtime (ex_config ''production'') ex_login 5000 ex_db_deactivated)"
    by (simp add: server_def app_def routes_def authRoutes_def then_serve_def serve_def
        PostController_AuthController_def validateBody_def loginSchema_def z_string_def
        login_def Let_def res_json_def userWithoutPassword_def nullable_def
        ex_login_def ex_request_def ex_runtime_def ex_db_def ex_db_deactivated_def ex_user_def)
qed

end
